theory Spec2Isabelle
  imports Complex_Main
begin

section \<open>The gesture-to-playback core of camera.js\<close>

text \<open>
  The development embeds two pieces of \<^verbatim>\<open>src/camera.js\<close>:
  \<^item> \<^verbatim>\<open>updateState\<close> (lines 52-84) with \<^verbatim>\<open>getSelectedDevice\<close> (lines 713-716)
    and the table \<^verbatim>\<open>songLookup\<close> (lines 33-50);
  \<^item> the per-pose callback of \<^verbatim>\<open>poseDetectionFrame\<close> (lines 504-620) with its
    local helpers \<^verbatim>\<open>isAllConfidentParts\<close>, \<^verbatim>\<open>getScore\<close>, \<^verbatim>\<open>getX\<close>,
    \<^verbatim>\<open>getY\<close>, \<^verbatim>\<open>headX\<close>.

  Conventions of the embedding.
  \<^item> A JavaScript exception is a value: results have type \<open>error + 'a\<close>. The only
    exception the embedded code can raise by itself is the \<^verbatim>\<open>TypeError\<close> of reading
    a property of \<^verbatim>\<open>undefined\<close>.
  \<^item> Scores, coordinates and thresholds are finite doubles, given by their rational
    values. The head average is computed as the code computes it: each sum and the
    quotient is rounded to the nearest double and can overflow to an infinity, and
    \<^verbatim>\<open>0 / 0\<close> is NaN.
  \<^item> Everything the code does to the outside (console, playback service,
    authorization redirect) is recorded in a trace of effects; the answers of the
    playback service are inputs.
  \<^item> \<^verbatim>\<open>updateState\<close> is an async function. The function \<open>updateState\<close> below is
    one call run to its end with nothing in between; calls that overlap while a request
    is in flight are modelled separately, by a page with suspended calls.
\<close>

subsection \<open>Errors and numbers\<close>

datatype error = TypeError

text \<open>
  A JavaScript number as far as the code needs it: a finite double, given by its
  rational value, one of the two infinities, or NaN.
\<close>

datatype number = Num rat | PosInf | NegInf | NaN

text \<open>\<^verbatim>\<open>a < b\<close> on numbers: every comparison with NaN is false.\<close>

fun less_number :: "number \<Rightarrow> number \<Rightarrow> bool" where
  "less_number NaN b = False"
| "less_number a NaN = False"
| "less_number PosInf b = False"
| "less_number a NegInf = False"
| "less_number NegInf b = True"
| "less_number (Num a) PosInf = True"
| "less_number (Num a) (Num b) = (a < b)"

subsection \<open>Arithmetic on doubles\<close>

text \<open>
  The result of an addition or a division of doubles is the exact result rounded to
  the nearest double, ties to the even significand (IEEE 754 binary64, the arithmetic
  of JavaScript numbers). The functions below compute that rounding for a rational.

  The number of binary digits of a positive integer.
\<close>

function bitLength :: "int \<Rightarrow> int" where
  "bitLength n = (if n \<le> 0 then 0 else 1 + bitLength (n div 2))"
  by auto
termination
  by (relation "measure nat") auto

declare bitLength.simps [simp del]

text \<open>The power of two with an integer exponent.\<close>

definition twoTo :: "int \<Rightarrow> rat" where
  "twoTo k = (if k \<ge> 0 then of_int (2 ^ nat k) else 1 / of_int (2 ^ nat (- k)))"

text \<open>
  The binary exponent of a positive rational \<open>a\<close>: the \<open>e\<close> with
  \<open>2^e \<le> a < 2^(e+1)\<close>. With \<open>a = n / d\<close> it is the difference of the bit lengths
  of \<open>n\<close> and \<open>d\<close>, or one less.
\<close>

definition binaryExponent :: "rat \<Rightarrow> int" where
  "binaryExponent a =
     (let (n, d) = quotient_of a;
          k = bitLength n - bitLength d
      in if twoTo k \<le> a then k else k - 1)"

text \<open>Rounding to the nearest integer, a tie going to the even one.\<close>

definition roundHalfEven :: "rat \<Rightarrow> int" where
  "roundHalfEven x =
     (let f = \<lfloor>x\<rfloor>; r = x - of_int f
      in if r < 1/2 then f else if r > 1/2 then f + 1 else if even f then f else f + 1)"

definition infinity :: "rat \<Rightarrow> number" where
  "infinity q = (if q > 0 then PosInf else NegInf)"

text \<open>
  The double nearest to a rational \<open>q\<close>. A double with binary exponent \<open>e\<close> is a
  multiple of \<open>2^(e - 52)\<close>; below \<open>2^(-1022)\<close> the doubles are the multiples of
  \<open>2^(-1074)\<close>; a result that rounds to \<open>2^1024\<close> or more is an infinity.
\<close>

definition toDouble :: "rat \<Rightarrow> number" where
  "toDouble q =
     (if q = 0 then Num 0
      else
        (let e = binaryExponent \<bar>q\<bar> in
         if e > 1023 then infinity q
         else
           (let quantum = twoTo (max e (- 1022) - 52);
                m = roundHalfEven (\<bar>q\<bar> / quantum)
            in if e = 1023 \<and> m \<ge> 2 ^ 53 then infinity q
               else Num (if q > 0 then of_int m * quantum else - (of_int m * quantum)))))"

text \<open>
  \<^verbatim>\<open>a + b\<close> for an accumulated sum \<open>a\<close> and a finite double \<open>b\<close>, and
  \<^verbatim>\<open>a / n\<close> for the length \<open>n\<close> of an array.
\<close>

fun plusDouble :: "number \<Rightarrow> rat \<Rightarrow> number" where
  "plusDouble (Num a) b = toDouble (a + b)"
| "plusDouble PosInf b = PosInf"
| "plusDouble NegInf b = NegInf"
| "plusDouble NaN b = NaN"

fun divideDouble :: "number \<Rightarrow> nat \<Rightarrow> number" where
  "divideDouble (Num a) n =
     (if n = 0 then (if a = 0 then NaN else infinity a) else toDouble (a / of_nat n))"
| "divideDouble PosInf n = PosInf"
| "divideDouble NegInf n = NegInf"
| "divideDouble NaN n = NaN"

subsection \<open>Short-circuit conditions\<close>

text \<open>
  \<^verbatim>\<open>a < b\<close> and \<^verbatim>\<open>a > b\<close> where evaluating an operand may throw: the left
  operand is evaluated first.
\<close>

definition lt :: "error + number \<Rightarrow> error + number \<Rightarrow> error + bool" where
  "lt a b =
     (case a of Inl e \<Rightarrow> Inl e
      | Inr x \<Rightarrow> (case b of Inl e \<Rightarrow> Inl e | Inr y \<Rightarrow> Inr (less_number x y)))"

definition gt :: "error + number \<Rightarrow> error + number \<Rightarrow> error + bool" where
  "gt a b =
     (case a of Inl e \<Rightarrow> Inl e
      | Inr x \<Rightarrow> (case b of Inl e \<Rightarrow> Inl e | Inr y \<Rightarrow> Inr (less_number y x)))"

text \<open>
  \<^verbatim>\<open>c1 && c2 && ...\<close> and \<^verbatim>\<open>c1 || c2 || ...\<close>: operands are taken from the left,
  a deciding operand ends the evaluation, and an operand that throws before that makes
  the whole expression throw.
\<close>

fun andAlso :: "(error + bool) list \<Rightarrow> error + bool" where
  "andAlso [] = Inr True"
| "andAlso (c # cs) =
     (case c of Inl e \<Rightarrow> Inl e | Inr b \<Rightarrow> if b then andAlso cs else Inr False)"

fun orElse :: "(error + bool) list \<Rightarrow> error + bool" where
  "orElse [] = Inr False"
| "orElse (c # cs) =
     (case c of Inl e \<Rightarrow> Inl e | Inr b \<Rightarrow> if b then Inr True else orElse cs)"

subsection \<open>The playback side: songLookup, getSelectedDevice, updateState\<close>

record song =
  uri :: string
  position :: int

text \<open>
  The own properties of \<^verbatim>\<open>songLookup\<close>. Positions are milliseconds;
  \<^verbatim>\<open>90.5 * 1000\<close> is 90500.
\<close>

definition songLookup :: "string \<Rightarrow> song option" where
  "songLookup name =
     (if name = ''YMCA'' then
        Some \<lparr>uri = ''spotify:track:7Cp69rNBwU0gaFT8zxExlE'', position = 58 * 1000\<rparr>
      else if name = ''Baby Shark'' then
        Some \<lparr>uri = ''spotify:track:5ygDXis42ncn6kYG14lEVG'', position = 4 * 1000\<rparr>
      else if name = ''Disco'' then
        Some \<lparr>uri = ''spotify:track:7qK3JFriCqLorQivsJYG2X'', position = 0\<rparr>
      else if name = ''Thriller'' then
        Some \<lparr>uri = ''spotify:track:7azo4rpSUh8nXgtonC6Pkq'', position = 90500\<rparr>
      else None)"

text \<open>
  \<^verbatim>\<open>songLookup\<close> is an object literal, so \<^verbatim>\<open>name in songLookup\<close> is also true
  for the property names it inherits from \<^verbatim>\<open>Object.prototype\<close>.
\<close>

definition objectPrototypeKeys :: "string list" where
  "objectPrototypeKeys =
     [''constructor'', ''hasOwnProperty'', ''isPrototypeOf'', ''propertyIsEnumerable'',
      ''toLocaleString'', ''toString'', ''valueOf'', ''__proto__'',
      ''__defineGetter__'', ''__defineSetter__'', ''__lookupGetter__'',
      ''__lookupSetter__'']"

text \<open>\<^verbatim>\<open>newState in songLookup\<close>.\<close>

definition inSongLookup :: "string \<Rightarrow> bool" where
  "inSongLookup name =
     (case songLookup name of Some s \<Rightarrow> True
      | None \<Rightarrow> List.member objectPrototypeKeys name)"

text \<open>
  The \<^verbatim>\<open><select id="devices">\<close> element as \<^verbatim>\<open>getSelectedDevice\<close> reads it: the
  values of its options and its \<^verbatim>\<open>selectedIndex\<close>, which is -1 when no option is
  selected (in particular when the device list is empty).
\<close>

record select_element =
  options :: "string list"
  selectedIndex :: int

text \<open>
  \<^verbatim>\<open>e.options[e.selectedIndex].value\<close>: outside the range the indexed read gives
  \<^verbatim>\<open>undefined\<close>, and reading \<^verbatim>\<open>.value\<close> of it throws.
\<close>

definition getSelectedDevice :: "select_element \<Rightarrow> error + string" where
  "getSelectedDevice e =
     (if 0 \<le> selectedIndex e \<and> selectedIndex e < int (length (options e))
      then Inr (options e ! nat (selectedIndex e))
      else Inl TypeError)"

text \<open>
  How a request to the playback service settles: the promise resolves, or it rejects
  with an object whose \<^verbatim>\<open>status\<close> is a number or is missing.
\<close>

datatype call_result = Resolved | Rejected "int option"

text \<open>
  The effects of the code, in the order they happen.
  \<^item> \<open>ConsoleLog a b\<close>, \<open>ConsoleError a b\<close>: \<^verbatim>\<open>console.log(a, b)\<close>,
    \<^verbatim>\<open>console.error(a, b)\<close>;
  \<^item> \<open>Play d u\<close>: \<^verbatim>\<open>spotifyApi.play({device_id: d, uris: [u]})\<close>, where \<open>u\<close> is
    \<open>None\<close> for \<^verbatim>\<open>undefined\<close>;
  \<^item> \<open>Seek p d\<close>: \<^verbatim>\<open>spotifyApi.seek(p, options)\<close> with \<open>d\<close> the
    \<^verbatim>\<open>device_id\<close> of the options, \<open>None\<close> when no options are passed;
  \<^item> \<open>Authorize\<close>: a call of \<^verbatim>\<open>authorize()\<close>, the redirect to the authorization
    page.
\<close>

datatype effect =
    ConsoleLog string string
  | ConsoleError string string
  | Play string "string option"
  | Seek int "string option"
  | Authorize

fun isPlay :: "effect \<Rightarrow> bool" where
  "isPlay (Play d u) = True"
| "isPlay e = False"

fun isSeek :: "effect \<Rightarrow> bool" where
  "isSeek (Seek p d) = True"
| "isSeek e = False"

fun isAuthorize :: "effect \<Rightarrow> bool" where
  "isAuthorize Authorize = True"
| "isAuthorize e = False"

fun isConsoleError :: "effect \<Rightarrow> bool" where
  "isConsoleError (ConsoleError a b) = True"
| "isConsoleError e = False"

text \<open>The device identifier a request to the playback service carries, if any.\<close>

fun requestDevice :: "effect \<Rightarrow> string option" where
  "requestDevice (Play d u) = Some d"
| "requestDevice (Seek p d) = d"
| "requestDevice e = None"

text \<open>
  What one call of \<^verbatim>\<open>updateState\<close> meets outside: the device selector, and how the
  play request and the seek request settle if they are issued.
\<close>

record env =
  devices :: select_element
  playResult :: call_result
  seekResult :: call_result

text \<open>
  The result of a call: the value of the global \<^verbatim>\<open>currentState\<close> afterwards, the
  effects of the call, and the exception the call ended with, if any.
\<close>

record outcome =
  currentState :: string
  trace :: "effect list"
  thrown :: "error option"

text \<open>The \<^verbatim>\<open>catch (ex)\<close> block: only status 401 does anything.\<close>

definition onRejected :: "int option \<Rightarrow> effect list" where
  "onRejected status = (if status = Some 401 then [Authorize] else [])"

text \<open>
  The \<^verbatim>\<open>try\<close> block with its \<^verbatim>\<open>catch\<close>. The argument \<open>entry\<close> is
  \<^verbatim>\<open>songLookup[newState]\<close>: a song, or \<open>None\<close> for an inherited property,
  whose \<^verbatim>\<open>uri\<close> and \<^verbatim>\<open>position\<close> are \<^verbatim>\<open>undefined\<close> (and
  \<^verbatim>\<open>undefined > 0\<close> is false).
\<close>

definition playSong :: "env \<Rightarrow> string \<Rightarrow> song option \<Rightarrow> effect list" where
  "playSong en currentDevice entry =
     Play currentDevice (map_option uri entry) #
     (case playResult en of
        Rejected status \<Rightarrow> onRejected status
      | Resolved \<Rightarrow>
          (case entry of
             None \<Rightarrow> []
           | Some s \<Rightarrow>
               if position s > 0 then
                 Seek (position s) None #
                 (case seekResult en of
                    Rejected status \<Rightarrow> onRejected status
                  | Resolved \<Rightarrow> [])
               else []))"

definition updateState :: "env \<Rightarrow> string \<Rightarrow> string \<Rightarrow> outcome" where
  "updateState en cur newState =
     (if cur = newState then \<lparr>currentState = cur, trace = [], thrown = None\<rparr>
      else
        (case getSelectedDevice (devices en) of
           Inl e \<Rightarrow>
             \<lparr>currentState = cur,
              trace = [ConsoleLog ''Updating State:'' newState],
              thrown = Some e\<rparr>
         | Inr currentDevice \<Rightarrow>
             \<lparr>currentState = newState,
              trace =
                ConsoleLog ''Updating State:'' newState #
                (if inSongLookup newState
                 then playSong en currentDevice (songLookup newState)
                 else [ConsoleError ''Could not find the song for the state:'' newState]),
              thrown = None\<rparr>))"

text \<open>
  A sequence of calls, each with its own environment, run one after the other from a
  held state. The traces are concatenated; an exception ends only the call that raised
  it (the caller's promise is rejected and the next frame goes on).
\<close>

fun updateStates :: "(env \<times> string) list \<Rightarrow> string \<Rightarrow> string \<times> effect list" where
  "updateStates [] cur = (cur, [])"
| "updateStates ((en, name) # rest) cur =
     (let r = updateState en cur name;
          (final, later) = updateStates rest (currentState r)
      in (final, trace r @ later))"

subsection \<open>Calls of updateState that overlap\<close>

text \<open>
  \<^verbatim>\<open>updateState\<close> is an async function. A call runs without interruption up to its
  first \<^verbatim>\<open>await\<close> and is suspended there; it goes on when the awaited request has
  settled. The callers do not wait for it (\<^verbatim>\<open>poses.forEach(async ...)\<close> starts the
  callback of the next pose at once, and the next frame is scheduled independently),
  so another call can start, and read the global \<^verbatim>\<open>currentState\<close>, while earlier
  calls are suspended. The page below records the global, the suspended calls in the
  order they started, and the effects so far.
\<close>

datatype awaited = PlayRequest | SeekRequest

record suspended =
  newStateArg :: string
  songEntry :: "song option"
  awaits :: awaited

record page =
  heldState :: string
  suspendedCalls :: "suspended list"
  effects :: "effect list"

text \<open>
  A call starts: the code from the guard to the first \<^verbatim>\<open>await\<close>, or to the end of
  the function when no request is issued. A call that throws changes nothing but the
  console.
\<close>

definition callStarts :: "select_element \<Rightarrow> string \<Rightarrow> page \<Rightarrow> page" where
  "callStarts sel newState pg =
     (if heldState pg = newState then pg
      else
        (case getSelectedDevice sel of
           Inl e \<Rightarrow> pg\<lparr>effects := effects pg @ [ConsoleLog ''Updating State:'' newState]\<rparr>
         | Inr currentDevice \<Rightarrow>
             if inSongLookup newState then
               pg\<lparr>suspendedCalls :=
                    suspendedCalls pg @
                    [\<lparr>newStateArg = newState, songEntry = songLookup newState,
                      awaits = PlayRequest\<rparr>],
                  effects :=
                    effects pg @
                    [ConsoleLog ''Updating State:'' newState,
                     Play currentDevice (map_option uri (songLookup newState))]\<rparr>
             else
               pg\<lparr>heldState := newState,
                  effects :=
                    effects pg @
                    [ConsoleLog ''Updating State:'' newState,
                     ConsoleError ''Could not find the song for the state:'' newState]\<rparr>))"

text \<open>
  The suspended call number \<open>k\<close> leaves the \<^verbatim>\<open>try\<close> statement with the effects
  \<open>es\<close> and assigns \<^verbatim>\<open>currentState\<close>.
\<close>

definition callEnds :: "nat \<Rightarrow> suspended \<Rightarrow> effect list \<Rightarrow> page \<Rightarrow> page" where
  "callEnds k c es pg =
     pg\<lparr>heldState := newStateArg c,
        suspendedCalls := take k (suspendedCalls pg) @ drop (Suc k) (suspendedCalls pg),
        effects := effects pg @ es\<rparr>"

text \<open>The request that the suspended call number \<open>k\<close> awaits settles.\<close>

definition requestSettles :: "nat \<Rightarrow> call_result \<Rightarrow> page \<Rightarrow> page" where
  "requestSettles k res pg =
     (if k < length (suspendedCalls pg) then
        (let c = suspendedCalls pg ! k in
         case res of
           Rejected status \<Rightarrow> callEnds k c (onRejected status) pg
         | Resolved \<Rightarrow>
             (case awaits c of
                SeekRequest \<Rightarrow> callEnds k c [] pg
              | PlayRequest \<Rightarrow>
                  (case songEntry c of
                     None \<Rightarrow> callEnds k c [] pg
                   | Some s \<Rightarrow>
                       if position s > 0 then
                         pg\<lparr>suspendedCalls :=
                              (suspendedCalls pg)[k := c\<lparr>awaits := SeekRequest\<rparr>],
                            effects := effects pg @ [Seek (position s) None]\<rparr>
                       else callEnds k c [] pg)))
      else pg)"

text \<open>The page when the script has been loaded: \<^verbatim>\<open>let currentState = ""\<close>.\<close>

definition initialPage :: page where
  "initialPage = \<lparr>heldState = '''', suspendedCalls = [], effects = []\<rparr>"

text \<open>
  What happens on the page: \<^verbatim>\<open>updateState(newState)\<close> is called, with the device
  selector as it is at that moment, or the request awaited by the suspended call
  number \<open>k\<close> settles.
\<close>

datatype event = Call select_element string | Settled nat call_result

fun step :: "page \<Rightarrow> event \<Rightarrow> page" where
  "step pg (Call sel newState) = callStarts sel newState pg"
| "step pg (Settled k res) = requestSettles k res pg"

definition run :: "event list \<Rightarrow> page \<Rightarrow> page" where
  "run events pg = foldl step pg events"

subsection \<open>The classifier: one pose of a frame\<close>

record keypoint =
  part :: string
  score :: rat
  position_x :: rat
  position_y :: rat

text \<open>A pose: \<^verbatim>\<open>{ score, keypoints }\<close>.\<close>

record pose =
  poseScore :: rat
  keypoints :: "keypoint list"

text \<open>\<^verbatim>\<open>keypoints.find(kp => kp.part === partName)\<close>.\<close>

definition findPart :: "keypoint list \<Rightarrow> string \<Rightarrow> keypoint option" where
  "findPart kps partName = find (\<lambda>kp. part kp = partName) kps"

definition getScore :: "keypoint list \<Rightarrow> string \<Rightarrow> error + rat" where
  "getScore kps partName =
     (case findPart kps partName of None \<Rightarrow> Inl TypeError | Some kp \<Rightarrow> Inr (score kp))"

definition getX :: "keypoint list \<Rightarrow> string \<Rightarrow> error + number" where
  "getX kps partName =
     (case findPart kps partName of
        None \<Rightarrow> Inl TypeError
      | Some kp \<Rightarrow> Inr (Num (position_x kp)))"

definition getY :: "keypoint list \<Rightarrow> string \<Rightarrow> error + number" where
  "getY kps partName =
     (case findPart kps partName of
        None \<Rightarrow> Inl TypeError
      | Some kp \<Rightarrow> Inr (Num (position_y kp)))"

text \<open>\<^verbatim>\<open>xs.map(f)\<close> for an \<open>f\<close> that may throw: the first exception ends the map.\<close>

fun mapE :: "('a \<Rightarrow> error + 'b) \<Rightarrow> 'a list \<Rightarrow> error + 'b list" where
  "mapE f [] = Inr []"
| "mapE f (x # xs) =
     (case f x of
        Inl e \<Rightarrow> Inl e
      | Inr y \<Rightarrow> (case mapE f xs of Inl e \<Rightarrow> Inl e | Inr ys \<Rightarrow> Inr (y # ys)))"

text \<open>
  \<^verbatim>\<open>isAllConfidentParts\<close>: the scores of all the parts are read first, then compared.
\<close>

definition isAllConfidentParts :: "keypoint list \<Rightarrow> rat \<Rightarrow> string list \<Rightarrow> error + bool" where
  "isAllConfidentParts kps minPartConfidence partNames =
     (case mapE (getScore kps) partNames of
        Inl e \<Rightarrow> Inl e
      | Inr confidences \<Rightarrow>
          Inr (list_all (\<lambda>confidence. confidence > minPartConfidence) confidences))"

definition headParts :: "string list" where
  "headParts = [''nose'', ''leftEye'', ''rightEye'', ''leftEar'', ''rightEar'']"

text \<open>
  \<^verbatim>\<open>headParts.filter(partName => getScore(partName) > minPartConfidence)\<close>.
\<close>

fun confidentParts :: "keypoint list \<Rightarrow> rat \<Rightarrow> string list \<Rightarrow> error + string list" where
  "confidentParts kps minPartConfidence [] = Inr []"
| "confidentParts kps minPartConfidence (p # ps) =
     (case getScore kps p of
        Inl e \<Rightarrow> Inl e
      | Inr s \<Rightarrow>
          (case confidentParts kps minPartConfidence ps of
             Inl e \<Rightarrow> Inl e
           | Inr rest \<Rightarrow> Inr (if s > minPartConfidence then p # rest else rest)))"

text \<open>
  \<^verbatim>\<open>vals.reduce((a, b) => a + b, 0) / vals.length\<close>: the values are added from
  the left, starting from 0, each sum rounded; the last sum is divided by the length
  and the quotient rounded. For an empty array this is \<^verbatim>\<open>0 / 0\<close>, which is NaN.
\<close>

definition average :: "rat list \<Rightarrow> number" where
  "average vals = divideDouble (foldl plusDouble (Num 0) vals) (length vals)"

text \<open>The coordinate of a keypoint as a rational, for the map inside \<^verbatim>\<open>headX\<close>.\<close>

definition getXvalue :: "keypoint list \<Rightarrow> string \<Rightarrow> error + rat" where
  "getXvalue kps partName =
     (case findPart kps partName of None \<Rightarrow> Inl TypeError | Some kp \<Rightarrow> Inr (position_x kp))"

definition headX :: "keypoint list \<Rightarrow> rat \<Rightarrow> error + number" where
  "headX kps minPartConfidence =
     (case confidentParts kps minPartConfidence headParts of
        Inl e \<Rightarrow> Inl e
      | Inr names \<Rightarrow>
          (case mapE (getXvalue kps) names of
             Inl e \<Rightarrow> Inl e
           | Inr vals \<Rightarrow> Inr (average vals)))"

definition armParts :: "string list" where
  "armParts =
     [''leftWrist'', ''leftElbow'', ''leftShoulder'',
      ''rightWrist'', ''rightElbow'', ''rightShoulder'']"

definition forearmParts :: "string list" where
  "forearmParts = [''leftWrist'', ''leftElbow'', ''rightWrist'', ''rightElbow'']"

text \<open>The condition of the first branch: hands above the head (YMCA).\<close>

definition ymcaCondition :: "keypoint list \<Rightarrow> rat \<Rightarrow> error + bool" where
  "ymcaCondition kps m =
     andAlso
      [isAllConfidentParts kps m armParts,
       andAlso
        [lt (getY kps ''leftWrist'') (getY kps ''leftElbow''),
         lt (getY kps ''leftElbow'') (getY kps ''leftShoulder''),
         lt (getY kps ''rightWrist'') (getY kps ''rightElbow''),
         lt (getY kps ''rightElbow'') (getY kps ''rightShoulder'')],
       orElse
        [andAlso [lt (getX kps ''leftWrist'') (headX kps m),
                  gt (getX kps ''rightWrist'') (headX kps m)],
         andAlso [gt (getX kps ''leftWrist'') (headX kps m),
                  lt (getX kps ''rightWrist'') (headX kps m)]]]"

text \<open>
  The vertical test shared by the second and third branch: one arm raised, the other
  lowered.
\<close>

definition oneArmUpOneDown :: "keypoint list \<Rightarrow> error + bool" where
  "oneArmUpOneDown kps =
     orElse
      [andAlso
        [lt (getY kps ''leftWrist'') (getY kps ''leftElbow''),
         lt (getY kps ''leftElbow'') (getY kps ''leftShoulder''),
         gt (getY kps ''rightWrist'') (getY kps ''rightElbow''),
         gt (getY kps ''rightElbow'') (getY kps ''rightShoulder'')],
       andAlso
        [gt (getY kps ''leftWrist'') (getY kps ''leftElbow''),
         gt (getY kps ''leftElbow'') (getY kps ''leftShoulder''),
         lt (getY kps ''rightWrist'') (getY kps ''rightElbow''),
         lt (getY kps ''rightElbow'') (getY kps ''rightShoulder'')]]"

text \<open>The condition of the second branch (Baby Shark).\<close>

definition sharkCondition :: "keypoint list \<Rightarrow> rat \<Rightarrow> error + bool" where
  "sharkCondition kps m =
     andAlso
      [isAllConfidentParts kps m armParts,
       oneArmUpOneDown kps,
       orElse
        [andAlso [lt (getX kps ''leftWrist'') (headX kps m),
                  lt (getX kps ''rightWrist'') (headX kps m)],
         andAlso [gt (getX kps ''leftWrist'') (headX kps m),
                  gt (getX kps ''rightWrist'') (headX kps m)]]]"

text \<open>The condition of the third branch (Disco).\<close>

definition discoCondition :: "keypoint list \<Rightarrow> rat \<Rightarrow> error + bool" where
  "discoCondition kps m =
     andAlso
      [isAllConfidentParts kps m armParts,
       oneArmUpOneDown kps,
       orElse
        [andAlso [lt (getX kps ''leftWrist'') (headX kps m),
                  gt (getX kps ''rightWrist'') (headX kps m)],
         andAlso [gt (getX kps ''leftWrist'') (headX kps m),
                  lt (getX kps ''rightWrist'') (headX kps m)]]]"

text \<open>The condition of the fourth branch (Thriller).\<close>

definition thrillerCondition :: "keypoint list \<Rightarrow> rat \<Rightarrow> error + bool" where
  "thrillerCondition kps m =
     andAlso
      [isAllConfidentParts kps m forearmParts,
       andAlso
        [lt (getY kps ''leftWrist'') (getY kps ''leftElbow''),
         lt (getY kps ''rightWrist'') (getY kps ''rightElbow'')],
       orElse
        [andAlso [lt (getX kps ''leftWrist'') (headX kps m),
                  lt (getX kps ''rightWrist'') (headX kps m)],
         andAlso [gt (getX kps ''leftWrist'') (headX kps m),
                  gt (getX kps ''rightWrist'') (headX kps m)]]]"

text \<open>
  The \<^verbatim>\<open>if\<close> / \<^verbatim>\<open>else if\<close> chain as a list of branches in the order of the
  source: the name passed to \<^verbatim>\<open>updateState\<close> and the condition guarding it.
\<close>

definition branches :: "(string \<times> (keypoint list \<Rightarrow> rat \<Rightarrow> error + bool)) list" where
  "branches =
     [(''YMCA'', ymcaCondition),
      (''Baby Shark'', sharkCondition),
      (''Disco'', discoCondition),
      (''Thriller'', thrillerCondition)]"

text \<open>
  Running the chain: the first branch whose condition is true gives the name, a
  condition that throws ends the chain, and \<open>None\<close> means that no branch was taken
  (\<^verbatim>\<open>updateState\<close> is not called).
\<close>

fun firstMatch ::
  "(string \<times> (keypoint list \<Rightarrow> rat \<Rightarrow> error + bool)) list \<Rightarrow> keypoint list \<Rightarrow> rat
     \<Rightarrow> error + string option" where
  "firstMatch [] kps m = Inr None"
| "firstMatch ((name, cond) # rest) kps m =
     (case cond kps m of
        Inl e \<Rightarrow> Inl e
      | Inr b \<Rightarrow> if b then Inr (Some name) else firstMatch rest kps m)"

text \<open>
  The body of the per-pose callback up to the call of \<^verbatim>\<open>updateState\<close>: the gesture
  name it would pass, \<open>None\<close> when it calls nothing.
\<close>

definition classify :: "rat \<Rightarrow> rat \<Rightarrow> pose \<Rightarrow> error + string option" where
  "classify minPoseConfidence minPartConfidence p =
     (if poseScore p \<ge> minPoseConfidence
      then firstMatch branches (keypoints p) minPartConfidence
      else Inr None)"

text \<open>The whole per-pose callback, from a held state.\<close>

definition poseCallback :: "env \<Rightarrow> rat \<Rightarrow> rat \<Rightarrow> string \<Rightarrow> pose \<Rightarrow> outcome" where
  "poseCallback en minPoseConfidence minPartConfidence cur p =
     (case classify minPoseConfidence minPartConfidence p of
        Inl e \<Rightarrow> \<lparr>currentState = cur, trace = [], thrown = Some e\<rparr>
      | Inr None \<Rightarrow> \<lparr>currentState = cur, trace = [], thrown = None\<rparr>
      | Inr (Some name) \<Rightarrow> updateState en cur name)"

text \<open>Poses processed one after the other, each with its own environment.\<close>

fun poseCallbacks ::
  "rat \<Rightarrow> rat \<Rightarrow> (env \<times> pose) list \<Rightarrow> string \<Rightarrow> string \<times> effect list" where
  "poseCallbacks minPose minPart [] cur = (cur, [])"
| "poseCallbacks minPose minPart ((en, p) # rest) cur =
     (let r = poseCallback en minPose minPart cur p;
          (final, later) = poseCallbacks minPose minPart rest (currentState r)
      in (final, trace r @ later))"

subsection \<open>Concrete inputs\<close>

text \<open>A device selector with one device, selected; and one with an empty list.\<close>

definition oneDevice :: select_element where
  "oneDevice = \<lparr>options = [''kitchen-speaker''], selectedIndex = 0\<rparr>"

definition noDevice :: select_element where
  "noDevice = \<lparr>options = [], selectedIndex = - 1\<rparr>"

definition allResolved :: env where
  "allResolved = \<lparr>devices = oneDevice, playResult = Resolved, seekResult = Resolved\<rparr>"

definition playUnauthorized :: env where
  "playUnauthorized =
     \<lparr>devices = oneDevice, playResult = Rejected (Some 401), seekResult = Resolved\<rparr>"

definition seekUnauthorized :: env where
  "seekUnauthorized =
     \<lparr>devices = oneDevice, playResult = Resolved, seekResult = Rejected (Some 401)\<rparr>"

definition playUnavailable :: env where
  "playUnavailable =
     \<lparr>devices = oneDevice, playResult = Rejected (Some 503), seekResult = Resolved\<rparr>"

definition nothingSelected :: env where
  "nothingSelected = \<lparr>devices = noDevice, playResult = Resolved, seekResult = Resolved\<rparr>"

definition kp :: "string \<Rightarrow> rat \<Rightarrow> rat \<Rightarrow> rat \<Rightarrow> keypoint" where
  "kp name s px py = \<lparr>part = name, score = s, position_x = px, position_y = py\<rparr>"

text \<open>A head whose confident parts (nose and eyes) average to x = 300.\<close>

definition headAt300 :: "keypoint list" where
  "headAt300 =
     [kp ''nose'' (9/10) 300 100, kp ''leftEye'' (8/10) 310 90,
      kp ''rightEye'' (8/10) 290 90, kp ''leftEar'' (1/10) 330 95,
      kp ''rightEar'' (1/10) 270 95]"

text \<open>The same head with no part above a threshold of 1/2.\<close>

definition headUnseen :: "keypoint list" where
  "headUnseen =
     [kp ''nose'' (2/10) 300 100, kp ''leftEye'' (1/10) 310 90,
      kp ''rightEye'' (1/10) 290 90, kp ''leftEar'' (1/10) 330 95,
      kp ''rightEar'' (1/10) 270 95]"

text \<open>Both arms raised, the wrists on either side of the head.\<close>

definition armsRaised :: "keypoint list" where
  "armsRaised =
     [kp ''leftWrist'' (7/10) 200 50, kp ''leftElbow'' (7/10) 220 120,
      kp ''leftShoulder'' (7/10) 260 200, kp ''rightWrist'' (7/10) 400 50,
      kp ''rightElbow'' (7/10) 380 120, kp ''rightShoulder'' (7/10) 340 200]"

text \<open>Both arms hanging.\<close>

definition armsHanging :: "keypoint list" where
  "armsHanging =
     [kp ''leftWrist'' (7/10) 250 400, kp ''leftElbow'' (7/10) 255 300,
      kp ''leftShoulder'' (7/10) 260 200, kp ''rightWrist'' (7/10) 350 400,
      kp ''rightElbow'' (7/10) 345 300, kp ''rightShoulder'' (7/10) 340 200]"

text \<open>
  Both forearms raised to the left of the head, the left elbow exactly level with the
  left shoulder.
\<close>

definition clawsLevelElbow :: "keypoint list" where
  "clawsLevelElbow =
     [kp ''leftWrist'' (7/10) 150 150, kp ''leftElbow'' (7/10) 200 200,
      kp ''leftShoulder'' (7/10) 260 200, kp ''rightWrist'' (7/10) 250 150,
      kp ''rightElbow'' (7/10) 320 210, kp ''rightShoulder'' (7/10) 340 200]"

text \<open>The raised arms with no keypoint at all for the left shoulder.\<close>

definition armsRaisedNoLeftShoulder :: "keypoint list" where
  "armsRaisedNoLeftShoulder =
     [kp ''leftWrist'' (7/10) 200 50, kp ''leftElbow'' (7/10) 220 120,
      kp ''rightWrist'' (7/10) 400 50,
      kp ''rightElbow'' (7/10) 380 120, kp ''rightShoulder'' (7/10) 340 200]"

text \<open>The raised arms with the left wrist present but at confidence 3/10.\<close>

definition armsRaisedFaintLeftWrist :: "keypoint list" where
  "armsRaisedFaintLeftWrist =
     [kp ''leftWrist'' (3/10) 200 50, kp ''leftElbow'' (7/10) 220 120,
      kp ''leftShoulder'' (7/10) 260 200, kp ''rightWrist'' (7/10) 400 50,
      kp ''rightElbow'' (7/10) 380 120, kp ''rightShoulder'' (7/10) 340 200]"

text \<open>The raised arms with no keypoint at all for the left wrist.\<close>

definition armsRaisedNoLeftWrist :: "keypoint list" where
  "armsRaisedNoLeftWrist =
     [kp ''leftElbow'' (7/10) 220 120,
      kp ''leftShoulder'' (7/10) 260 200, kp ''rightWrist'' (7/10) 400 50,
      kp ''rightElbow'' (7/10) 380 120, kp ''rightShoulder'' (7/10) 340 200]"

text \<open>The raised arms with the left wrist exactly level with the left elbow.\<close>

definition armsRaisedLevelWrist :: "keypoint list" where
  "armsRaisedLevelWrist =
     [kp ''leftWrist'' (7/10) 200 120, kp ''leftElbow'' (7/10) 220 120,
      kp ''leftShoulder'' (7/10) 260 200, kp ''rightWrist'' (7/10) 400 50,
      kp ''rightElbow'' (7/10) 380 120, kp ''rightShoulder'' (7/10) 340 200]"

text \<open>The raised arms with the left wrist at x = 300, under the head average.\<close>

definition armsRaisedWristUnderHead :: "keypoint list" where
  "armsRaisedWristUnderHead =
     [kp ''leftWrist'' (7/10) 300 50, kp ''leftElbow'' (7/10) 220 120,
      kp ''leftShoulder'' (7/10) 260 200, kp ''rightWrist'' (7/10) 400 50,
      kp ''rightElbow'' (7/10) 380 120, kp ''rightShoulder'' (7/10) 340 200]"

text \<open>
  The double nearest to 200.3, the value of the JavaScript literal \<^verbatim>\<open>200.3\<close>: it is
  \<open>7047429729393050 / 2^45\<close>.
\<close>

definition x200_3 :: rat where
  "x200_3 = 3523714864696525 / 17592186044416"

text \<open>A head whose confident parts (nose and eyes) are all at x = 200.3.\<close>

definition headAt200_3 :: "keypoint list" where
  "headAt200_3 =
     [kp ''nose'' (9/10) x200_3 100, kp ''leftEye'' (8/10) x200_3 90,
      kp ''rightEye'' (8/10) x200_3 90, kp ''leftEar'' (1/10) 230 95,
      kp ''rightEar'' (1/10) 170 95]"

text \<open>
  Both forearms raised, the left wrist at x = 200.3 and the right wrist to the left of
  it; the right elbow is lower than the right shoulder.
\<close>

definition clawsWristAt200_3 :: "keypoint list" where
  "clawsWristAt200_3 =
     [kp ''leftWrist'' (7/10) x200_3 150, kp ''leftElbow'' (7/10) 200 200,
      kp ''leftShoulder'' (7/10) 260 220, kp ''rightWrist'' (7/10) 150 150,
      kp ''rightElbow'' (7/10) 320 210, kp ''rightShoulder'' (7/10) 340 200]"

definition handsUp :: pose where
  "handsUp = \<lparr>poseScore = 9/10, keypoints = headAt300 @ armsRaised\<rparr>"

definition atRest :: pose where
  "atRest = \<lparr>poseScore = 9/10, keypoints = headAt300 @ armsHanging\<rparr>"

definition clawsUp :: pose where
  "clawsUp = \<lparr>poseScore = 9/10, keypoints = headAt300 @ clawsLevelElbow\<rparr>"

definition shoulderMissing :: pose where
  "shoulderMissing = \<lparr>poseScore = 9/10, keypoints = headAt300 @ armsRaisedNoLeftShoulder\<rparr>"

definition wristFaint :: pose where
  "wristFaint = \<lparr>poseScore = 9/10, keypoints = headAt300 @ armsRaisedFaintLeftWrist\<rparr>"

definition wristMissing :: pose where
  "wristMissing = \<lparr>poseScore = 9/10, keypoints = headAt300 @ armsRaisedNoLeftWrist\<rparr>"

definition wristLevel :: pose where
  "wristLevel = \<lparr>poseScore = 9/10, keypoints = headAt300 @ armsRaisedLevelWrist\<rparr>"

definition wristUnderHead :: pose where
  "wristUnderHead = \<lparr>poseScore = 9/10, keypoints = headAt300 @ armsRaisedWristUnderHead\<rparr>"

definition clawsAtMean :: pose where
  "clawsAtMean = \<lparr>poseScore = 9/10, keypoints = headAt200_3 @ clawsWristAt200_3\<rparr>"

definition headMissing :: pose where
  "headMissing = \<lparr>poseScore = 9/10, keypoints = armsRaised\<rparr>"

definition headHidden :: pose where
  "headHidden = \<lparr>poseScore = 9/10, keypoints = headUnseen @ armsRaised\<rparr>"

definition handsUpUnsure :: pose where
  "handsUpUnsure = \<lparr>poseScore = 5/100, keypoints = headAt300 @ armsRaised\<rparr>"

section \<open>Evaluation\<close>

text \<open>
  Equations for evaluating the four conditions on a concrete pose in the order of the
  source: the head average is computed only when the tests before it have passed, and
  once.
\<close>

lemma ymcaCondition_code [code]:
  "ymcaCondition kps m =
     (case isAllConfidentParts kps m armParts of
        Inl e \<Rightarrow> Inl e
      | Inr c \<Rightarrow>
          if c then
            (case andAlso
                    [lt (getY kps ''leftWrist'') (getY kps ''leftElbow''),
                     lt (getY kps ''leftElbow'') (getY kps ''leftShoulder''),
                     lt (getY kps ''rightWrist'') (getY kps ''rightElbow''),
                     lt (getY kps ''rightElbow'') (getY kps ''rightShoulder'')] of
               Inl e \<Rightarrow> Inl e
             | Inr v \<Rightarrow>
                 if v then
                   (let h = headX kps m
                    in orElse
                        [andAlso [lt (getX kps ''leftWrist'') h, gt (getX kps ''rightWrist'') h],
                         andAlso [gt (getX kps ''leftWrist'') h, lt (getX kps ''rightWrist'') h]])
                 else Inr False)
          else Inr False)"
  by (simp add: ymcaCondition_def Let_def split: sum.splits)

lemma sharkCondition_code [code]:
  "sharkCondition kps m =
     (case isAllConfidentParts kps m armParts of
        Inl e \<Rightarrow> Inl e
      | Inr c \<Rightarrow>
          if c then
            (case oneArmUpOneDown kps of
               Inl e \<Rightarrow> Inl e
             | Inr v \<Rightarrow>
                 if v then
                   (let h = headX kps m
                    in orElse
                        [andAlso [lt (getX kps ''leftWrist'') h, lt (getX kps ''rightWrist'') h],
                         andAlso [gt (getX kps ''leftWrist'') h, gt (getX kps ''rightWrist'') h]])
                 else Inr False)
          else Inr False)"
  by (simp add: sharkCondition_def Let_def split: sum.splits)

lemma discoCondition_code [code]:
  "discoCondition kps m =
     (case isAllConfidentParts kps m armParts of
        Inl e \<Rightarrow> Inl e
      | Inr c \<Rightarrow>
          if c then
            (case oneArmUpOneDown kps of
               Inl e \<Rightarrow> Inl e
             | Inr v \<Rightarrow>
                 if v then
                   (let h = headX kps m
                    in orElse
                        [andAlso [lt (getX kps ''leftWrist'') h, gt (getX kps ''rightWrist'') h],
                         andAlso [gt (getX kps ''leftWrist'') h, lt (getX kps ''rightWrist'') h]])
                 else Inr False)
          else Inr False)"
  by (simp add: discoCondition_def Let_def split: sum.splits)

lemma thrillerCondition_code [code]:
  "thrillerCondition kps m =
     (case isAllConfidentParts kps m forearmParts of
        Inl e \<Rightarrow> Inl e
      | Inr c \<Rightarrow>
          if c then
            (case andAlso
                    [lt (getY kps ''leftWrist'') (getY kps ''leftElbow''),
                     lt (getY kps ''rightWrist'') (getY kps ''rightElbow'')] of
               Inl e \<Rightarrow> Inl e
             | Inr v \<Rightarrow>
                 if v then
                   (let h = headX kps m
                    in orElse
                        [andAlso [lt (getX kps ''leftWrist'') h, lt (getX kps ''rightWrist'') h],
                         andAlso [gt (getX kps ''leftWrist'') h, gt (getX kps ''rightWrist'') h]])
                 else Inr False)
          else Inr False)"
  by (simp add: thrillerCondition_def Let_def split: sum.splits)

text \<open>
  The rounding on examples: the literal \<^verbatim>\<open>200.3\<close>; the sum
  \<^verbatim>\<open>0.1 + 0.2\<close>, which is \<^verbatim>\<open>0.30000000000000004\<close>; and the average of three
  values 200.3, which is not 200.3 but the next double, \<^verbatim>\<open>200.30000000000004\<close>.
\<close>

lemma toDouble_200_3: "toDouble (2003/10) = Num x200_3"
  by code_simp

lemma plusDouble_tenth_fifth:
  "toDouble (1/10) = Num (3602879701896397 / 2 ^ 55)
   \<and> toDouble (2/10) = Num (3602879701896397 / 2 ^ 54)
   \<and> plusDouble (Num (3602879701896397 / 2 ^ 55)) (3602879701896397 / 2 ^ 54)
       = Num (5404319552844596 / 2 ^ 54)"
  by code_simp

lemma average_200_3: "average [x200_3, x200_3, x200_3] = Num (x200_3 + 1 / 2 ^ 45)"
  by code_simp

section \<open>Properties of updateState\<close>

subsection \<open>Auxiliary facts\<close>

lemma updateState_same:
  "updateState en g g = \<lparr>currentState = g, trace = [], thrown = None\<rparr>"
  by (simp add: updateState_def)

lemma updateState_selected:
  "getSelectedDevice (devices en) = Inr d \<Longrightarrow>
   currentState (updateState en cur n) = n \<and> thrown (updateState en cur n) = None"
  by (simp add: updateState_def)

lemma playSong_one_play: "length (filter isPlay (playSong en d entry)) = 1"
  by (simp add: playSong_def onRejected_def split: call_result.splits option.splits)

lemma updateStates_repeat: "updateStates (map (\<lambda>e. (e, g)) es) g = (g, [])"
  by (induction es) (simp_all add: updateState_same)

subsection \<open>Expired authorization\<close>

text \<open>
  Claim C8. When the playback service answers a play request or a seek request that
  \<^verbatim>\<open>updateState\<close> has issued with status 401, the call makes exactly one call of
  \<^verbatim>\<open>authorize()\<close> and does not issue the request again: its trace holds exactly one
  play request and at most one seek request, and nothing follows the renewal signal.
  The hypothesis says that the request is in the trace of the call and that the
  service's answer to it is the rejection with status 401.
\<close>

theorem authorization_expired_renews_once:
  assumes "(list_ex isPlay (trace (updateState en cur newState))
              \<and> playResult en = Rejected (Some 401))
         \<or> (list_ex isSeek (trace (updateState en cur newState))
              \<and> seekResult en = Rejected (Some 401))"
  shows "length (filter isAuthorize (trace (updateState en cur newState))) = 1
       \<and> length (filter isPlay (trace (updateState en cur newState))) = 1
       \<and> length (filter isSeek (trace (updateState en cur newState))) \<le> 1
       \<and> last (trace (updateState en cur newState)) = Authorize"
  using assms
  by (auto simp: updateState_def playSong_def onRejected_def
           split: if_splits sum.splits option.splits call_result.splits)

theorem authorization_expired_renews_once_witness:
  "list_ex isPlay (trace (updateState playUnauthorized '''' ''YMCA''))
   \<and> playResult playUnauthorized = Rejected (Some 401)
   \<and> length (filter isAuthorize (trace (updateState playUnauthorized '''' ''YMCA''))) = 1
   \<and> length (filter isPlay (trace (updateState playUnauthorized '''' ''YMCA''))) = 1
   \<and> last (trace (updateState playUnauthorized '''' ''YMCA'')) = Authorize
   \<and> list_ex isSeek (trace (updateState seekUnauthorized '''' ''Thriller''))
   \<and> seekResult seekUnauthorized = Rejected (Some 401)
   \<and> length (filter isAuthorize (trace (updateState seekUnauthorized '''' ''Thriller''))) = 1
   \<and> length (filter isSeek (trace (updateState seekUnauthorized '''' ''Thriller''))) \<le> 1"
proof -
  have p: "list_ex isPlay (trace (updateState playUnauthorized '''' ''YMCA''))
           \<and> playResult playUnauthorized = Rejected (Some 401)"
    by code_simp
  have s: "list_ex isSeek (trace (updateState seekUnauthorized '''' ''Thriller''))
           \<and> seekResult seekUnauthorized = Rejected (Some 401)"
    by code_simp
  from p have p': "(list_ex isPlay (trace (updateState playUnauthorized '''' ''YMCA''))
           \<and> playResult playUnauthorized = Rejected (Some 401))
         \<or> (list_ex isSeek (trace (updateState playUnauthorized '''' ''YMCA''))
           \<and> seekResult playUnauthorized = Rejected (Some 401))"
    by blast
  from s have s': "(list_ex isPlay (trace (updateState seekUnauthorized '''' ''Thriller''))
           \<and> playResult seekUnauthorized = Rejected (Some 401))
         \<or> (list_ex isSeek (trace (updateState seekUnauthorized '''' ''Thriller''))
           \<and> seekResult seekUnauthorized = Rejected (Some 401))"
    by blast
  from authorization_expired_renews_once [OF p'] authorization_expired_renews_once [OF s'] p s
  show ?thesis by blast
qed

subsection \<open>Other failures of the playback service\<close>

text \<open>
  Claim C3, as amended. When the playback service rejects a play or seek request that
  \<^verbatim>\<open>updateState\<close> has issued, with a status other than 401 (or with no status), the
  \<^verbatim>\<open>catch\<close> block does nothing: the trace of the call is the opening
  \<^verbatim>\<open>console.log('Updating State:', newState)\<close> followed by requests only, so the
  failure is not reported anywhere. The request is not issued again (one play request,
  at most one seek request), the call ends normally, and \<^verbatim>\<open>currentState\<close> is the new
  name.
\<close>

theorem other_failure_is_swallowed:
  assumes "(list_ex isPlay (trace (updateState en cur newState))
              \<and> playResult en = Rejected st \<and> st \<noteq> Some 401)
         \<or> (list_ex isSeek (trace (updateState en cur newState))
              \<and> seekResult en = Rejected st \<and> st \<noteq> Some 401)"
  shows "hd (trace (updateState en cur newState)) = ConsoleLog ''Updating State:'' newState
       \<and> list_all (\<lambda>e. isPlay e \<or> isSeek e) (tl (trace (updateState en cur newState)))
       \<and> length (filter isPlay (trace (updateState en cur newState))) = 1
       \<and> length (filter isSeek (trace (updateState en cur newState))) \<le> 1
       \<and> currentState (updateState en cur newState) = newState
       \<and> thrown (updateState en cur newState) = None"
  using assms
  by (auto simp: updateState_def playSong_def onRejected_def
           split: if_splits sum.splits option.splits call_result.splits)

theorem other_failure_is_swallowed_witness:
  "list_ex isPlay (trace (updateState playUnavailable '''' ''YMCA''))
   \<and> playResult playUnavailable = Rejected (Some 503) \<and> Some (503::int) \<noteq> Some 401
   \<and> hd (trace (updateState playUnavailable '''' ''YMCA''))
        = ConsoleLog ''Updating State:'' ''YMCA''
   \<and> list_all (\<lambda>e. isPlay e \<or> isSeek e) (tl (trace (updateState playUnavailable '''' ''YMCA'')))
   \<and> length (filter isPlay (trace (updateState playUnavailable '''' ''YMCA''))) = 1
   \<and> currentState (updateState playUnavailable '''' ''YMCA'') = ''YMCA''"
proof -
  have p: "list_ex isPlay (trace (updateState playUnavailable '''' ''YMCA''))
           \<and> playResult playUnavailable = Rejected (Some 503) \<and> Some (503::int) \<noteq> Some 401"
    by code_simp
  then have p': "(list_ex isPlay (trace (updateState playUnavailable '''' ''YMCA''))
              \<and> playResult playUnavailable = Rejected (Some 503) \<and> Some (503::int) \<noteq> Some 401)
         \<or> (list_ex isSeek (trace (updateState playUnavailable '''' ''YMCA''))
              \<and> seekResult playUnavailable = Rejected (Some 503) \<and> Some (503::int) \<noteq> Some 401)"
    by blast
  from other_failure_is_swallowed [OF p'] p show ?thesis by blast
qed

text \<open>
  The claim as first stated, that the error is reported, fails: with a play request
  rejected with status 503 the whole trace is the opening log line and the request.
\<close>

theorem failure_not_reported_counterexample:
  "playResult playUnavailable = Rejected (Some 503)
   \<and> trace (updateState playUnavailable '''' ''YMCA'') =
       [ConsoleLog ''Updating State:'' ''YMCA'',
        Play ''kitchen-speaker'' (Some ''spotify:track:7Cp69rNBwU0gaFT8zxExlE'')]
   \<and> \<not> list_ex isConsoleError (trace (updateState playUnavailable '''' ''YMCA''))"
  by code_simp

subsection \<open>The device identifier of the requests\<close>

text \<open>
  Claim C4, as amended. Every play request issued by \<^verbatim>\<open>updateState\<close> carries the
  device identifier that \<^verbatim>\<open>getSelectedDevice\<close> returned; the follow-up seek request
  is issued with the position only and carries no device identifier.
\<close>

theorem play_carries_selected_device:
  assumes "getSelectedDevice (devices en) = Inr d"
  shows "\<forall>r \<in> set (trace (updateState en cur newState)).
           (isPlay r \<longrightarrow> requestDevice r = Some d) \<and> (isSeek r \<longrightarrow> requestDevice r = None)"
  using assms
  by (auto simp: updateState_def playSong_def onRejected_def
           split: if_splits sum.splits option.splits call_result.splits)

theorem play_carries_selected_device_witness:
  "getSelectedDevice (devices allResolved) = Inr ''kitchen-speaker''
   \<and> trace (updateState allResolved '''' ''YMCA'') =
       [ConsoleLog ''Updating State:'' ''YMCA'',
        Play ''kitchen-speaker'' (Some ''spotify:track:7Cp69rNBwU0gaFT8zxExlE''),
        Seek 58000 None]
   \<and> requestDevice (Play ''kitchen-speaker'' (Some ''spotify:track:7Cp69rNBwU0gaFT8zxExlE''))
       = Some ''kitchen-speaker''
   \<and> requestDevice (Seek 58000 None) = None"
proof -
  have h: "getSelectedDevice (devices allResolved) = Inr ''kitchen-speaker''"
    by code_simp
  have tr: "trace (updateState allResolved '''' ''YMCA'') =
       [ConsoleLog ''Updating State:'' ''YMCA'',
        Play ''kitchen-speaker'' (Some ''spotify:track:7Cp69rNBwU0gaFT8zxExlE''),
        Seek 58000 None]"
    by code_simp
  from play_carries_selected_device [OF h, of "''''" "''YMCA''"] h tr show ?thesis
    by simp
qed

text \<open>
  The claim as first stated fails for the seek request: with the device
  \<^verbatim>\<open>kitchen-speaker\<close> selected, the seek request that follows the play request of
  YMCA carries no device identifier.
\<close>

theorem seek_without_device_counterexample:
  "getSelectedDevice (devices allResolved) = Inr ''kitchen-speaker''
   \<and> trace (updateState allResolved '''' ''YMCA'') =
       [ConsoleLog ''Updating State:'' ''YMCA'',
        Play ''kitchen-speaker'' (Some ''spotify:track:7Cp69rNBwU0gaFT8zxExlE''),
        Seek 58000 None]
   \<and> isSeek (Seek 58000 None)
   \<and> requestDevice (Seek 58000 None) \<noteq> Some ''kitchen-speaker''"
  by code_simp

subsection \<open>The held state after a call\<close>

text \<open>
  With a device selected, so that \<^verbatim>\<open>getSelectedDevice\<close> returns, a call ends
  normally with \<^verbatim>\<open>currentState\<close> equal to \<^verbatim>\<open>newState\<close>, for every name and
  however the play and seek requests settle. A name that is not \<^verbatim>\<open>in songLookup\<close>
  becomes the held state; its first occurrence logs the state change and reports the
  missing song, and an immediate repeat of the same name does nothing at all, in any
  environment.
\<close>

lemma held_state_follows_name:
  assumes "getSelectedDevice (devices en) = Inr d"
  shows "currentState (updateState en cur n) = n
       \<and> thrown (updateState en cur n) = None
       \<and> updateState en' (currentState (updateState en cur n)) n
           = \<lparr>currentState = n, trace = [], thrown = None\<rparr>
       \<and> (cur \<noteq> n \<and> \<not> inSongLookup n \<longrightarrow>
            trace (updateState en cur n) =
              [ConsoleLog ''Updating State:'' n,
               ConsoleError ''Could not find the song for the state:'' n])"
  using assms by (simp add: updateState_def)

lemma held_state_follows_name_example:
  "getSelectedDevice (devices playUnavailable) = Inr ''kitchen-speaker''
   \<and> '''' \<noteq> ''Macarena'' \<and> \<not> inSongLookup ''Macarena''
   \<and> currentState (updateState playUnavailable '''' ''Macarena'') = ''Macarena''
   \<and> trace (updateState playUnavailable '''' ''Macarena'') =
       [ConsoleLog ''Updating State:'' ''Macarena'',
        ConsoleError ''Could not find the song for the state:'' ''Macarena'']
   \<and> updateState nothingSelected (currentState (updateState playUnavailable '''' ''Macarena''))
        ''Macarena'' = \<lparr>currentState = ''Macarena'', trace = [], thrown = None\<rparr>"
proof -
  have h: "getSelectedDevice (devices playUnavailable) = Inr ''kitchen-speaker''"
    by code_simp
  have u: "'''' \<noteq> ''Macarena'' \<and> \<not> inSongLookup ''Macarena''"
    by code_simp
  from held_state_follows_name [OF h, of "''''" "''Macarena''" nothingSelected] h u
  show ?thesis by blast
qed

text \<open>
  Claim C9. The claim is that \<^verbatim>\<open>updateState(newState)\<close> finishes, for every input
  name, by setting \<^verbatim>\<open>currentState\<close> to \<^verbatim>\<open>newState\<close>, so that an unmapped name
  becomes the held state and its repeat is suppressed. The code reaches the assignment
  on every path through the \<^verbatim>\<open>try\<close>, \<^verbatim>\<open>catch\<close> and \<^verbatim>\<open>else\<close> blocks, but
  \<^verbatim>\<open>getSelectedDevice()\<close> is called before them, outside the \<^verbatim>\<open>try\<close>. With no
  option selected in the device list it throws, and the call ends there: for the
  unmapped name Macarena the held state stays empty, the missing song is never
  reported, and the repeat of the same name does the same again.
\<close>

theorem no_device_state_not_set:
  "getSelectedDevice noDevice = Inl TypeError
   \<and> updateState nothingSelected '''' ''Macarena'' =
       \<lparr>currentState = '''', trace = [ConsoleLog ''Updating State:'' ''Macarena''],
        thrown = Some TypeError\<rparr>
   \<and> updateState nothingSelected (currentState (updateState nothingSelected '''' ''Macarena''))
       ''Macarena'' =
       \<lparr>currentState = '''', trace = [ConsoleLog ''Updating State:'' ''Macarena''],
        thrown = Some TypeError\<rparr>"
  by code_simp

subsection \<open>Repeated names\<close>

text \<open>
  When the calls do not overlap and a device is selected at the first one, a name \<open>g\<close>
  that is \<^verbatim>\<open>in songLookup\<close> and differs from the held state, fed in any number of
  consecutive calls, produces one transition and one play request, both in the first
  call: the trace of the whole sequence is the trace of its first call, the held state
  ends as \<open>g\<close>, and every repeat changes nothing and has no effect, whatever its
  environment.
\<close>

lemma repeats_are_debounced:
  assumes "cur \<noteq> g" and "getSelectedDevice (devices e1) = Inr d" and "inSongLookup g"
  shows "updateStates (map (\<lambda>e. (e, g)) (e1 # es)) cur = (g, trace (updateState e1 cur g))
       \<and> length (filter isPlay (trace (updateState e1 cur g))) = 1
       \<and> updateState e2 g g = \<lparr>currentState = g, trace = [], thrown = None\<rparr>"
proof -
  have st: "currentState (updateState e1 cur g) = g"
    using assms(2) by (simp add: updateState_selected)
  have "updateStates (map (\<lambda>e. (e, g)) (e1 # es)) cur = (g, trace (updateState e1 cur g))"
    by (simp add: st updateStates_repeat)
  moreover have "length (filter isPlay (trace (updateState e1 cur g))) = 1"
    using assms by (simp add: updateState_def playSong_one_play)
  ultimately show ?thesis by (simp add: updateState_same)
qed

lemma repeats_are_debounced_example:
  "'''' \<noteq> ''YMCA'' \<and> getSelectedDevice (devices allResolved) = Inr ''kitchen-speaker''
   \<and> inSongLookup ''YMCA''
   \<and> updateStates
        [(allResolved, ''YMCA''), (playUnavailable, ''YMCA''), (nothingSelected, ''YMCA'')] ''''
       = (''YMCA'',
          [ConsoleLog ''Updating State:'' ''YMCA'',
           Play ''kitchen-speaker'' (Some ''spotify:track:7Cp69rNBwU0gaFT8zxExlE''),
           Seek 58000 None])"
proof -
  have h1: "'''' \<noteq> ''YMCA''" by simp
  have h2: "getSelectedDevice (devices allResolved) = Inr ''kitchen-speaker''"
    by code_simp
  have h3: "inSongLookup ''YMCA''" by code_simp
  have tr: "trace (updateState allResolved '''' ''YMCA'') =
     [ConsoleLog ''Updating State:'' ''YMCA'',
      Play ''kitchen-speaker'' (Some ''spotify:track:7Cp69rNBwU0gaFT8zxExlE''),
      Seek 58000 None]"
    by code_simp
  from repeats_are_debounced [OF h1 h2 h3, of "[playUnavailable, nothingSelected]"] h1 h2 h3 tr
  show ?thesis by simp
qed

text \<open>
  The run of a page agrees with \<^verbatim>\<open>updateState\<close> when a call is left to finish
  before anything else happens: on a page with no suspended call, the start of a call
  followed by the settling of its play request and of its seek request gives the held
  state and the effects of \<^verbatim>\<open>updateState\<close>. (A settling event for a request that was
  never issued changes nothing.)
\<close>

lemma no_suspended_settles: "suspendedCalls pg = [] \<Longrightarrow> requestSettles k res pg = pg"
  by (simp add: requestSettles_def)

lemma run_to_completion:
  assumes "suspendedCalls pg = []"
  shows "run [Call (devices en) n, Settled 0 (playResult en), Settled 0 (seekResult en)] pg
       = pg\<lparr>heldState := currentState (updateState en (heldState pg) n),
             effects := effects pg @ trace (updateState en (heldState pg) n)\<rparr>"
proof (cases "heldState pg = n")
  case True
  with assms show ?thesis
    by (simp add: run_def callStarts_def no_suspended_settles updateState_def)
next
  case differs: False
  show ?thesis
  proof (cases "getSelectedDevice (devices en)")
    case (Inl e)
    with differs assms show ?thesis
      by (simp add: run_def callStarts_def no_suspended_settles updateState_def)
  next
    case (Inr d)
    show ?thesis
    proof (cases "inSongLookup n")
      case False
      with differs Inr assms show ?thesis
        by (simp add: run_def callStarts_def no_suspended_settles updateState_def)
    next
      case True
      with differs Inr assms show ?thesis
        by (cases "playResult en"; cases "songLookup n"; cases "seekResult en")
           (simp_all add: run_def callStarts_def requestSettles_def callEnds_def
              updateState_def playSong_def)
    qed
  qed
qed

text \<open>
  Claim C7. The claim is that the same classified name on two or more consecutive
  frames produces exactly one transition and exactly one play request, every repeat
  being a call without effect. The guard at the head of \<^verbatim>\<open>updateState\<close> is there for
  that, but \<^verbatim>\<open>currentState\<close> is assigned only at the end of the call, after the
  awaits and after \<^verbatim>\<open>getSelectedDevice\<close>. Two runs of the code where the claim
  fails:
  \<^item> two calls with YMCA, the second starting while the play request of the first is
    still in flight (a device is selected, every request resolves): the second call
    reads the empty held state and passes the guard, and two play requests and two seek
    requests go out;
  \<^item> two calls with YMCA, one after the other, with no device selected: each call logs
    the state change and throws, no play request goes out, and the held state stays
    empty.
\<close>

theorem repeated_name_not_debounced:
  "run [Call oneDevice ''YMCA'', Call oneDevice ''YMCA'',
        Settled 0 Resolved, Settled 0 Resolved, Settled 0 Resolved, Settled 0 Resolved]
       initialPage
     = \<lparr>heldState = ''YMCA'', suspendedCalls = [],
        effects =
          [ConsoleLog ''Updating State:'' ''YMCA'',
           Play ''kitchen-speaker'' (Some ''spotify:track:7Cp69rNBwU0gaFT8zxExlE''),
           ConsoleLog ''Updating State:'' ''YMCA'',
           Play ''kitchen-speaker'' (Some ''spotify:track:7Cp69rNBwU0gaFT8zxExlE''),
           Seek 58000 None, Seek 58000 None]\<rparr>
   \<and> updateStates [(nothingSelected, ''YMCA''), (nothingSelected, ''YMCA'')] ''''
     = ('''', [ConsoleLog ''Updating State:'' ''YMCA'', ConsoleLog ''Updating State:'' ''YMCA''])"
  by code_simp

section \<open>Properties of the classifier\<close>

subsection \<open>When a condition is true\<close>

lemma andAlso_True: "andAlso cs = Inr True \<longleftrightarrow> list_all (\<lambda>c. c = Inr True) cs"
  by (induction cs) (auto split: sum.splits)

lemma orElse_True: "orElse cs = Inr True \<Longrightarrow> list_ex (\<lambda>c. c = Inr True) cs"
  by (induction cs) (auto split: sum.splits if_splits)

lemma less_number_irrefl: "\<not> less_number x x"
  by (cases x) simp_all

lemma less_number_not_NaN: "less_number x y \<Longrightarrow> x \<noteq> NaN \<and> y \<noteq> NaN"
  by (cases x; cases y) simp_all

lemma lt_True: "lt a b = Inr True \<longleftrightarrow> (\<exists>x y. a = Inr x \<and> b = Inr y \<and> less_number x y)"
  by (auto simp: lt_def split: sum.splits)

lemma gt_True: "gt a b = Inr True \<longleftrightarrow> (\<exists>x y. a = Inr x \<and> b = Inr y \<and> less_number y x)"
  by (auto simp: gt_def split: sum.splits)

lemma lt_True_neq: "lt a b = Inr True \<Longrightarrow> a \<noteq> b"
  by (auto simp: lt_True less_number_irrefl)

lemma gt_True_neq: "gt a b = Inr True \<Longrightarrow> a \<noteq> b"
  by (auto simp: gt_True less_number_irrefl)

lemma firstMatch_Some:
  "firstMatch bs kps m = Inr (Some g) \<Longrightarrow> \<exists>c. (g, c) \<in> set bs \<and> c kps m = Inr True"
  by (induction bs kps m rule: firstMatch.induct) (auto split: sum.splits if_splits)

lemma classify_Some:
  assumes "classify mp m p = Inr (Some g)"
  shows "(g = ''YMCA'' \<and> ymcaCondition (keypoints p) m = Inr True)
       \<or> (g = ''Baby Shark'' \<and> sharkCondition (keypoints p) m = Inr True)
       \<or> (g = ''Disco'' \<and> discoCondition (keypoints p) m = Inr True)
       \<or> (g = ''Thriller'' \<and> thrillerCondition (keypoints p) m = Inr True)"
proof -
  from assms have "firstMatch branches (keypoints p) m = Inr (Some g)"
    by (simp add: classify_def split: if_splits)
  from firstMatch_Some [OF this] show ?thesis
    by (auto simp: branches_def)
qed

lemma poseCallback_unmatched:
  "\<forall>g. classify mp m p \<noteq> Inr (Some g) \<Longrightarrow>
   currentState (poseCallback en mp m cur p) = cur \<and> trace (poseCallback en mp m cur p) = []"
  by (auto simp: poseCallback_def split: sum.splits option.splits)

text \<open>One arm up and one down: each of the four vertical comparisons is strict.\<close>

lemma oneArmUpOneDown_True:
  assumes "oneArmUpOneDown kps = Inr True"
  shows "getY kps ''leftWrist'' \<noteq> getY kps ''leftElbow''"
    and "getY kps ''rightWrist'' \<noteq> getY kps ''rightElbow''"
    and "getY kps ''leftElbow'' \<noteq> getY kps ''leftShoulder''"
    and "getY kps ''rightElbow'' \<noteq> getY kps ''rightShoulder''"
  using orElse_True [OF assms [unfolded oneArmUpOneDown_def]]
  by (auto simp: andAlso_True simp del: andAlso.simps dest: lt_True_neq gt_True_neq)

text \<open>
  The two horizontal tests: when one holds, the head average is not NaN and each
  wrist is strictly on one side of it.
\<close>

lemma opposite_sides_True:
  assumes "orElse [andAlso [lt (getX kps ''leftWrist'') (headX kps m),
                            gt (getX kps ''rightWrist'') (headX kps m)],
                   andAlso [gt (getX kps ''leftWrist'') (headX kps m),
                            lt (getX kps ''rightWrist'') (headX kps m)]] = Inr True"
  shows "\<exists>h. headX kps m = Inr h \<and> h \<noteq> NaN
           \<and> getX kps ''leftWrist'' \<noteq> headX kps m \<and> getX kps ''rightWrist'' \<noteq> headX kps m"
  using orElse_True [OF assms]
  by (auto simp: andAlso_True lt_True gt_True less_number_irrefl simp del: andAlso.simps
           dest: less_number_not_NaN)

lemma same_side_True:
  assumes "orElse [andAlso [lt (getX kps ''leftWrist'') (headX kps m),
                            lt (getX kps ''rightWrist'') (headX kps m)],
                   andAlso [gt (getX kps ''leftWrist'') (headX kps m),
                            gt (getX kps ''rightWrist'') (headX kps m)]] = Inr True"
  shows "\<exists>h. headX kps m = Inr h \<and> h \<noteq> NaN
           \<and> getX kps ''leftWrist'' \<noteq> headX kps m \<and> getX kps ''rightWrist'' \<noteq> headX kps m"
  using orElse_True [OF assms]
  by (auto simp: andAlso_True lt_True gt_True less_number_irrefl simp del: andAlso.simps
           dest: less_number_not_NaN)

lemma ymca_True:
  assumes "ymcaCondition kps m = Inr True"
  shows "getY kps ''leftWrist'' \<noteq> getY kps ''leftElbow''"
    and "getY kps ''rightWrist'' \<noteq> getY kps ''rightElbow''"
    and "getY kps ''leftElbow'' \<noteq> getY kps ''leftShoulder''"
    and "getY kps ''rightElbow'' \<noteq> getY kps ''rightShoulder''"
    and "\<exists>h. headX kps m = Inr h \<and> h \<noteq> NaN
           \<and> getX kps ''leftWrist'' \<noteq> headX kps m \<and> getX kps ''rightWrist'' \<noteq> headX kps m"
proof -
  from assms have v: "lt (getY kps ''leftWrist'') (getY kps ''leftElbow'') = Inr True"
      "lt (getY kps ''leftElbow'') (getY kps ''leftShoulder'') = Inr True"
      "lt (getY kps ''rightWrist'') (getY kps ''rightElbow'') = Inr True"
      "lt (getY kps ''rightElbow'') (getY kps ''rightShoulder'') = Inr True"
    and h: "orElse
        [andAlso [lt (getX kps ''leftWrist'') (headX kps m),
                  gt (getX kps ''rightWrist'') (headX kps m)],
         andAlso [gt (getX kps ''leftWrist'') (headX kps m),
                  lt (getX kps ''rightWrist'') (headX kps m)]] = Inr True"
    by (simp_all add: ymcaCondition_def andAlso_True del: andAlso.simps orElse.simps)
  from v show "getY kps ''leftWrist'' \<noteq> getY kps ''leftElbow''"
    and "getY kps ''rightWrist'' \<noteq> getY kps ''rightElbow''"
    and "getY kps ''leftElbow'' \<noteq> getY kps ''leftShoulder''"
    and "getY kps ''rightElbow'' \<noteq> getY kps ''rightShoulder''"
    by (blast dest: lt_True_neq)+
  from opposite_sides_True [OF h] show "\<exists>h. headX kps m = Inr h \<and> h \<noteq> NaN
           \<and> getX kps ''leftWrist'' \<noteq> headX kps m \<and> getX kps ''rightWrist'' \<noteq> headX kps m"
    by simp
qed

lemma shark_True:
  assumes "sharkCondition kps m = Inr True"
  shows "getY kps ''leftWrist'' \<noteq> getY kps ''leftElbow''"
    and "getY kps ''rightWrist'' \<noteq> getY kps ''rightElbow''"
    and "getY kps ''leftElbow'' \<noteq> getY kps ''leftShoulder''"
    and "getY kps ''rightElbow'' \<noteq> getY kps ''rightShoulder''"
    and "\<exists>h. headX kps m = Inr h \<and> h \<noteq> NaN
           \<and> getX kps ''leftWrist'' \<noteq> headX kps m \<and> getX kps ''rightWrist'' \<noteq> headX kps m"
proof -
  from assms have v: "oneArmUpOneDown kps = Inr True"
    and h: "orElse
        [andAlso [lt (getX kps ''leftWrist'') (headX kps m),
                  lt (getX kps ''rightWrist'') (headX kps m)],
         andAlso [gt (getX kps ''leftWrist'') (headX kps m),
                  gt (getX kps ''rightWrist'') (headX kps m)]] = Inr True"
    by (simp_all add: sharkCondition_def andAlso_True del: andAlso.simps orElse.simps)
  from oneArmUpOneDown_True [OF v] show "getY kps ''leftWrist'' \<noteq> getY kps ''leftElbow''"
    and "getY kps ''rightWrist'' \<noteq> getY kps ''rightElbow''"
    and "getY kps ''leftElbow'' \<noteq> getY kps ''leftShoulder''"
    and "getY kps ''rightElbow'' \<noteq> getY kps ''rightShoulder''"
    by blast+
  from same_side_True [OF h] show "\<exists>h. headX kps m = Inr h \<and> h \<noteq> NaN
           \<and> getX kps ''leftWrist'' \<noteq> headX kps m \<and> getX kps ''rightWrist'' \<noteq> headX kps m"
    by simp
qed

lemma disco_True:
  assumes "discoCondition kps m = Inr True"
  shows "getY kps ''leftWrist'' \<noteq> getY kps ''leftElbow''"
    and "getY kps ''rightWrist'' \<noteq> getY kps ''rightElbow''"
    and "getY kps ''leftElbow'' \<noteq> getY kps ''leftShoulder''"
    and "getY kps ''rightElbow'' \<noteq> getY kps ''rightShoulder''"
    and "\<exists>h. headX kps m = Inr h \<and> h \<noteq> NaN
           \<and> getX kps ''leftWrist'' \<noteq> headX kps m \<and> getX kps ''rightWrist'' \<noteq> headX kps m"
proof -
  from assms have v: "oneArmUpOneDown kps = Inr True"
    and h: "orElse
        [andAlso [lt (getX kps ''leftWrist'') (headX kps m),
                  gt (getX kps ''rightWrist'') (headX kps m)],
         andAlso [gt (getX kps ''leftWrist'') (headX kps m),
                  lt (getX kps ''rightWrist'') (headX kps m)]] = Inr True"
    by (simp_all add: discoCondition_def andAlso_True del: andAlso.simps orElse.simps)
  from oneArmUpOneDown_True [OF v] show "getY kps ''leftWrist'' \<noteq> getY kps ''leftElbow''"
    and "getY kps ''rightWrist'' \<noteq> getY kps ''rightElbow''"
    and "getY kps ''leftElbow'' \<noteq> getY kps ''leftShoulder''"
    and "getY kps ''rightElbow'' \<noteq> getY kps ''rightShoulder''"
    by blast+
  from opposite_sides_True [OF h] show "\<exists>h. headX kps m = Inr h \<and> h \<noteq> NaN
           \<and> getX kps ''leftWrist'' \<noteq> headX kps m \<and> getX kps ''rightWrist'' \<noteq> headX kps m"
    by simp
qed

lemma thriller_True:
  assumes "thrillerCondition kps m = Inr True"
  shows "getY kps ''leftWrist'' \<noteq> getY kps ''leftElbow''"
    and "getY kps ''rightWrist'' \<noteq> getY kps ''rightElbow''"
    and "\<exists>h. headX kps m = Inr h \<and> h \<noteq> NaN
           \<and> getX kps ''leftWrist'' \<noteq> headX kps m \<and> getX kps ''rightWrist'' \<noteq> headX kps m"
proof -
  from assms have v: "lt (getY kps ''leftWrist'') (getY kps ''leftElbow'') = Inr True"
      "lt (getY kps ''rightWrist'') (getY kps ''rightElbow'') = Inr True"
    and h: "orElse
        [andAlso [lt (getX kps ''leftWrist'') (headX kps m),
                  lt (getX kps ''rightWrist'') (headX kps m)],
         andAlso [gt (getX kps ''leftWrist'') (headX kps m),
                  gt (getX kps ''rightWrist'') (headX kps m)]] = Inr True"
    by (simp_all add: thrillerCondition_def andAlso_True del: andAlso.simps orElse.simps)
  from v show "getY kps ''leftWrist'' \<noteq> getY kps ''leftElbow''"
    and "getY kps ''rightWrist'' \<noteq> getY kps ''rightElbow''"
    by (blast dest: lt_True_neq)+
  from same_side_True [OF h] show "\<exists>h. headX kps m = Inr h \<and> h \<noteq> NaN
           \<and> getX kps ''leftWrist'' \<noteq> headX kps m \<and> getX kps ''rightWrist'' \<noteq> headX kps m"
    by simp
qed

text \<open>Every taken branch has strict wrist/elbow and wrist/head comparisons.\<close>

lemma classify_Some_strict:
  assumes "classify mp m p = Inr (Some g)"
  shows "getY (keypoints p) ''leftWrist'' \<noteq> getY (keypoints p) ''leftElbow''"
    and "getY (keypoints p) ''rightWrist'' \<noteq> getY (keypoints p) ''rightElbow''"
    and "getX (keypoints p) ''leftWrist'' \<noteq> headX (keypoints p) m"
    and "getX (keypoints p) ''rightWrist'' \<noteq> headX (keypoints p) m"
    and "\<exists>h. headX (keypoints p) m = Inr h \<and> h \<noteq> NaN"
  using classify_Some [OF assms]
    ymca_True(1,2,5) [of "keypoints p" m] shark_True(1,2,5) [of "keypoints p" m]
    disco_True(1,2,5) [of "keypoints p" m] thriller_True [of "keypoints p" m]
  by blast+

lemma classify_Some_upper_arm:
  assumes "classify mp m p = Inr (Some g)" and "g \<noteq> ''Thriller''"
  shows "getY (keypoints p) ''leftElbow'' \<noteq> getY (keypoints p) ''leftShoulder''"
    and "getY (keypoints p) ''rightElbow'' \<noteq> getY (keypoints p) ''rightShoulder''"
  using classify_Some [OF assms(1)] assms(2)
    ymca_True(3,4) [of "keypoints p" m] shark_True(3,4) [of "keypoints p" m]
    disco_True(3,4) [of "keypoints p" m]
  by blast+

subsection \<open>The pose-confidence gate\<close>

text \<open>
  Claim C6. For every pose whose score is below \<^verbatim>\<open>minPoseConfidence\<close>, whatever the
  scores of its keypoints, the callback evaluates no branch: no gesture is named,
  nothing is raised, \<^verbatim>\<open>updateState\<close> is not called, and the held state and the
  outside world are left as they were.
\<close>

theorem low_pose_score_yields_none:
  assumes "poseScore p < mp"
  shows "classify mp m p = Inr None
       \<and> poseCallback en mp m cur p = \<lparr>currentState = cur, trace = [], thrown = None\<rparr>"
  using assms by (simp add: classify_def poseCallback_def)

theorem low_pose_score_yields_none_witness:
  "poseScore handsUpUnsure < 1/10
   \<and> classify (1/10) (1/2) handsUpUnsure = Inr None
   \<and> poseCallback allResolved (1/10) (1/2) ''Disco'' handsUpUnsure
       = \<lparr>currentState = ''Disco'', trace = [], thrown = None\<rparr>"
proof -
  have h: "poseScore handsUpUnsure < 1/10" by code_simp
  from low_pose_score_yields_none [OF h, of "1/2" allResolved "''Disco''"] h
  show ?thesis by blast
qed

subsection \<open>Poses on a boundary\<close>

text \<open>
  Claim C10, as amended. The comparisons of the four conditions are strict. A pose in
  which the y-coordinate of a wrist equals that of its elbow, or the x-coordinate of a
  wrist equals the value that \<^verbatim>\<open>headX()\<close> returns, satisfies none of the four
  conditions and triggers no state update. The value that \<^verbatim>\<open>headX()\<close> returns is
  the average as the code computes it in doubles, each sum and the quotient rounded;
  it can differ from the exact mean of the head coordinates, and a wrist at the exact
  mean is then not on the boundary. A pose in which the y-coordinate of an elbow equals
  that of its shoulder satisfies none of the YMCA, Baby Shark and Disco conditions;
  the Thriller condition does not compare elbows with shoulders, so such a pose can
  still be classified as Thriller.
\<close>

theorem boundary_poses_match_nothing:
  "(getY (keypoints p) ''leftWrist'' = getY (keypoints p) ''leftElbow''
      \<or> getY (keypoints p) ''rightWrist'' = getY (keypoints p) ''rightElbow''
      \<or> getX (keypoints p) ''leftWrist'' = headX (keypoints p) m
      \<or> getX (keypoints p) ''rightWrist'' = headX (keypoints p) m
    \<longrightarrow> (\<forall>g. classify mp m p \<noteq> Inr (Some g))
        \<and> currentState (poseCallback en mp m cur p) = cur
        \<and> trace (poseCallback en mp m cur p) = [])
   \<and> (getY (keypoints p) ''leftElbow'' = getY (keypoints p) ''leftShoulder''
      \<or> getY (keypoints p) ''rightElbow'' = getY (keypoints p) ''rightShoulder''
    \<longrightarrow> (\<forall>g. classify mp m p = Inr (Some g) \<longrightarrow> g = ''Thriller''))"
proof (intro conjI impI)
  assume b: "getY (keypoints p) ''leftWrist'' = getY (keypoints p) ''leftElbow''
      \<or> getY (keypoints p) ''rightWrist'' = getY (keypoints p) ''rightElbow''
      \<or> getX (keypoints p) ''leftWrist'' = headX (keypoints p) m
      \<or> getX (keypoints p) ''rightWrist'' = headX (keypoints p) m"
  show n: "\<forall>g. classify mp m p \<noteq> Inr (Some g)"
    using b classify_Some_strict(1-4) [of mp m p] by blast
  from poseCallback_unmatched [OF n]
  show "currentState (poseCallback en mp m cur p) = cur"
    and "trace (poseCallback en mp m cur p) = []"
    by simp_all
next
  assume b: "getY (keypoints p) ''leftElbow'' = getY (keypoints p) ''leftShoulder''
      \<or> getY (keypoints p) ''rightElbow'' = getY (keypoints p) ''rightShoulder''"
  show "\<forall>g. classify mp m p = Inr (Some g) \<longrightarrow> g = ''Thriller''"
    using b classify_Some_upper_arm [of mp m p] by blast
qed

theorem boundary_poses_match_nothing_witness:
  "getY (keypoints wristLevel) ''leftWrist'' = getY (keypoints wristLevel) ''leftElbow''
   \<and> classify (1/10) (1/2) wristLevel = Inr None
   \<and> currentState (poseCallback allResolved (1/10) (1/2) ''Disco'' wristLevel) = ''Disco''
   \<and> trace (poseCallback allResolved (1/10) (1/2) ''Disco'' wristLevel) = []
   \<and> getX (keypoints wristUnderHead) ''leftWrist'' = headX (keypoints wristUnderHead) (1/2)
   \<and> headX (keypoints wristUnderHead) (1/2) = Inr (Num 300)
   \<and> classify (1/10) (1/2) wristUnderHead = Inr None
   \<and> currentState (poseCallback allResolved (1/10) (1/2) ''Disco'' wristUnderHead) = ''Disco''
   \<and> getY (keypoints clawsUp) ''leftElbow'' = getY (keypoints clawsUp) ''leftShoulder''
   \<and> classify (1/10) (1/2) clawsUp = Inr (Some ''Thriller'')"
proof -
  have a: "getY (keypoints wristLevel) ''leftWrist'' = getY (keypoints wristLevel) ''leftElbow''"
    by code_simp
  have h: "headX (keypoints wristUnderHead) (1/2) = Inr (Num 300)"
    by code_simp
  have x: "getX (keypoints wristUnderHead) ''leftWrist'' = Inr (Num 300)"
    by code_simp
  have b: "getY (keypoints clawsUp) ''leftElbow'' = getY (keypoints clawsUp) ''leftShoulder''"
    by code_simp
  have c: "classify (1/10) (1/2) wristLevel = Inr None" by code_simp
  have u: "classify (1/10) (1/2) wristUnderHead = Inr None" by code_simp
  have t: "classify (1/10) (1/2) clawsUp = Inr (Some ''Thriller'')" by code_simp
  from x h have e: "getX (keypoints wristUnderHead) ''leftWrist''
                      = headX (keypoints wristUnderHead) (1/2)"
    by simp
  from boundary_poses_match_nothing [of wristLevel "1/2" "1/10" allResolved "''Disco''"]
       boundary_poses_match_nothing [of wristUnderHead "1/2" "1/10" allResolved "''Disco''"]
       a b c t u e h
  show ?thesis by blast
qed

text \<open>
  The claim as first stated fails for an elbow level with its shoulder: both forearms
  raised on the left of the head, the left elbow at the height of the left shoulder,
  is classified as Thriller and starts the Thriller track. It also fails when the
  head-reference average is read as the mean of the head coordinates: with the nose
  and both eyes at x = 200.3 and the left wrist at x = 200.3, the code computes the
  average 200.30000000000004, finds the wrist to the left of it, and classifies the
  pose as Thriller.
\<close>

theorem level_elbow_counterexample:
  "getY (keypoints clawsUp) ''leftElbow'' = getY (keypoints clawsUp) ''leftShoulder''
   \<and> classify (1/10) (1/2) clawsUp = Inr (Some ''Thriller'')
   \<and> poseCallback allResolved (1/10) (1/2) '''' clawsUp =
       \<lparr>currentState = ''Thriller'',
        trace = [ConsoleLog ''Updating State:'' ''Thriller'',
                 Play ''kitchen-speaker'' (Some ''spotify:track:7azo4rpSUh8nXgtonC6Pkq''),
                 Seek 90500 None],
        thrown = None\<rparr>
   \<and> getX (keypoints clawsAtMean) ''leftWrist'' = Inr (Num x200_3)
   \<and> getXvalue (keypoints clawsAtMean) ''nose'' = Inr x200_3
   \<and> getXvalue (keypoints clawsAtMean) ''leftEye'' = Inr x200_3
   \<and> getXvalue (keypoints clawsAtMean) ''rightEye'' = Inr x200_3
   \<and> confidentParts (keypoints clawsAtMean) (1/2) headParts
       = Inr [''nose'', ''leftEye'', ''rightEye'']
   \<and> headX (keypoints clawsAtMean) (1/2) = Inr (Num (x200_3 + 1 / 2 ^ 45))
   \<and> classify (1/10) (1/2) clawsAtMean = Inr (Some ''Thriller'')"
  by code_simp

subsection \<open>Missing and unconfident required parts\<close>

lemma error_is_TypeError: "(e::error) = TypeError"
  by (cases e) simp

lemma mapE_getScore_absent:
  "n \<in> set ps \<Longrightarrow> findPart kps n = None \<Longrightarrow> mapE (getScore kps) ps = Inl TypeError"
proof (induction ps)
  case Nil
  then show ?case by simp
next
  case (Cons a ps)
  then show ?case
    by (cases "a = n") (auto simp: getScore_def error_is_TypeError split: sum.splits option.splits)
qed

lemma mapE_getScore_present:
  "\<forall>n\<in>set ps. findPart kps n \<noteq> None \<Longrightarrow>
   mapE (getScore kps) ps = Inr (map (\<lambda>n. score (the (findPart kps n))) ps)"
  by (induction ps) (auto simp: getScore_def split: option.splits)

lemma isAllConfidentParts_absent:
  "n \<in> set ps \<Longrightarrow> findPart kps n = None \<Longrightarrow> isAllConfidentParts kps m ps = Inl TypeError"
  by (simp add: isAllConfidentParts_def mapE_getScore_absent)

lemma isAllConfidentParts_faint:
  assumes "\<forall>n\<in>set ps. findPart kps n \<noteq> None"
    and "n \<in> set ps" and "findPart kps n = Some k" and "\<not> score k > m"
  shows "isAllConfidentParts kps m ps = Inr False"
proof -
  from assms(2-4) have "\<exists>x\<in>set ps. \<not> m < score (the (findPart kps x))"
    by (intro bexI [of _ n]) simp_all
  with assms(1) show ?thesis
    by (simp add: isAllConfidentParts_def mapE_getScore_present list_all_iff)
qed

lemma isAllConfidentParts_no_throw:
  "\<forall>n\<in>set ps. findPart kps n \<noteq> None \<Longrightarrow> \<not> isl (isAllConfidentParts kps m ps)"
  by (simp add: isAllConfidentParts_def mapE_getScore_present)

text \<open>
  Claim C2, as amended. For every pose and every branch: if all the parts the branch
  passes to \<^verbatim>\<open>isAllConfidentParts\<close> are present in the keypoints and one of them has
  a score not above \<^verbatim>\<open>minPartConfidence\<close>, the condition of the branch is false
  without any exception, and when this holds for a wrist or an elbow (required by
  every branch) the classification ends with no gesture. If one of those parts is
  absent from the keypoints, the lookup reads \<^verbatim>\<open>.score\<close> of \<^verbatim>\<open>undefined\<close>: the
  condition raises a TypeError, and so does the classification of a pose that passed
  the pose-confidence gate. The failed lookup is an error path.
\<close>

theorem required_part_unconfident_or_missing:
  "((\<forall>n\<in>set armParts. findPart (keypoints p) n \<noteq> None)
      \<and> (\<exists>n\<in>set armParts. \<exists>k. findPart (keypoints p) n = Some k \<and> \<not> score k > m)
     \<longrightarrow> ymcaCondition (keypoints p) m = Inr False
         \<and> sharkCondition (keypoints p) m = Inr False
         \<and> discoCondition (keypoints p) m = Inr False)
   \<and> ((\<forall>n\<in>set forearmParts. findPart (keypoints p) n \<noteq> None)
      \<and> (\<exists>n\<in>set forearmParts. \<exists>k. findPart (keypoints p) n = Some k \<and> \<not> score k > m)
     \<longrightarrow> thrillerCondition (keypoints p) m = Inr False)
   \<and> ((\<forall>n\<in>set armParts. findPart (keypoints p) n \<noteq> None)
      \<and> (\<exists>n\<in>set forearmParts. \<exists>k. findPart (keypoints p) n = Some k \<and> \<not> score k > m)
     \<longrightarrow> classify mp m p = Inr None)
   \<and> ((\<exists>n\<in>set armParts. findPart (keypoints p) n = None)
     \<longrightarrow> ymcaCondition (keypoints p) m = Inl TypeError
         \<and> sharkCondition (keypoints p) m = Inl TypeError
         \<and> discoCondition (keypoints p) m = Inl TypeError)
   \<and> ((\<exists>n\<in>set forearmParts. findPart (keypoints p) n = None)
     \<longrightarrow> thrillerCondition (keypoints p) m = Inl TypeError)
   \<and> ((\<exists>n\<in>set armParts. findPart (keypoints p) n = None) \<and> poseScore p \<ge> mp
     \<longrightarrow> classify mp m p = Inl TypeError)"
proof -
  let ?kps = "keypoints p"
  have arm_faint: "isAllConfidentParts ?kps m armParts = Inr False"
    if "\<forall>n\<in>set armParts. findPart ?kps n \<noteq> None"
      and "\<exists>n\<in>set armParts. \<exists>k. findPart ?kps n = Some k \<and> \<not> score k > m"
    using that isAllConfidentParts_faint [of armParts ?kps _ _ m] by blast
  have fore_faint: "isAllConfidentParts ?kps m forearmParts = Inr False"
    if "\<forall>n\<in>set forearmParts. findPart ?kps n \<noteq> None"
      and "\<exists>n\<in>set forearmParts. \<exists>k. findPart ?kps n = Some k \<and> \<not> score k > m"
    using that isAllConfidentParts_faint [of forearmParts ?kps _ _ m] by blast
  have arm_absent: "isAllConfidentParts ?kps m armParts = Inl TypeError"
    if "\<exists>n\<in>set armParts. findPart ?kps n = None"
    using that isAllConfidentParts_absent [of _ armParts ?kps m] by blast
  have fore_absent: "isAllConfidentParts ?kps m forearmParts = Inl TypeError"
    if "\<exists>n\<in>set forearmParts. findPart ?kps n = None"
    using that isAllConfidentParts_absent [of _ forearmParts ?kps m] by blast
  have sub: "set forearmParts \<subseteq> set armParts"
    by (simp add: forearmParts_def armParts_def)
  have c1: "ymcaCondition ?kps m = Inr False \<and> sharkCondition ?kps m = Inr False
         \<and> discoCondition ?kps m = Inr False"
    if "isAllConfidentParts ?kps m armParts = Inr False"
    using that by (simp add: ymcaCondition_def sharkCondition_def discoCondition_def)
  have c2: "thrillerCondition ?kps m = Inr False"
    if "isAllConfidentParts ?kps m forearmParts = Inr False"
    using that by (simp add: thrillerCondition_def)
  have c3: "ymcaCondition ?kps m = Inl TypeError \<and> sharkCondition ?kps m = Inl TypeError
         \<and> discoCondition ?kps m = Inl TypeError"
    if "isAllConfidentParts ?kps m armParts = Inl TypeError"
    using that by (simp add: ymcaCondition_def sharkCondition_def discoCondition_def)
  have c4: "thrillerCondition ?kps m = Inl TypeError"
    if "isAllConfidentParts ?kps m forearmParts = Inl TypeError"
    using that by (simp add: thrillerCondition_def)
  have none: "classify mp m p = Inr None"
    if a: "\<forall>n\<in>set armParts. findPart ?kps n \<noteq> None"
      and f: "\<exists>n\<in>set forearmParts. \<exists>k. findPart ?kps n = Some k \<and> \<not> score k > m"
  proof -
    from a sub have "\<forall>n\<in>set forearmParts. findPart ?kps n \<noteq> None" by blast
    from c2 [OF fore_faint [OF this f]] have t: "thrillerCondition ?kps m = Inr False" .
    from f sub have "\<exists>n\<in>set armParts. \<exists>k. findPart ?kps n = Some k \<and> \<not> score k > m"
      by blast
    from c1 [OF arm_faint [OF a this]] t show ?thesis
      by (simp add: classify_def branches_def)
  qed
  have raise: "classify mp m p = Inl TypeError"
    if "\<exists>n\<in>set armParts. findPart ?kps n = None" and "poseScore p \<ge> mp"
    using c3 [OF arm_absent [OF that(1)]] that(2)
    by (simp add: classify_def branches_def)
  show ?thesis
    using c1 [OF arm_faint] c2 [OF fore_faint] c3 [OF arm_absent] c4 [OF fore_absent] none raise
    by blast
qed

theorem required_part_unconfident_or_missing_witness:
  "list_all (\<lambda>n. findPart (keypoints wristFaint) n \<noteq> None) armParts
   \<and> findPart (keypoints wristFaint) ''leftWrist'' = Some (kp ''leftWrist'' (3/10) 200 50)
   \<and> \<not> score (kp ''leftWrist'' (3/10) 200 50) > 1/2
   \<and> ymcaCondition (keypoints wristFaint) (1/2) = Inr False
   \<and> sharkCondition (keypoints wristFaint) (1/2) = Inr False
   \<and> discoCondition (keypoints wristFaint) (1/2) = Inr False
   \<and> thrillerCondition (keypoints wristFaint) (1/2) = Inr False
   \<and> classify (1/10) (1/2) wristFaint = Inr None
   \<and> findPart (keypoints wristMissing) ''leftWrist'' = None
   \<and> poseScore wristMissing \<ge> 1/10
   \<and> ymcaCondition (keypoints wristMissing) (1/2) = Inl TypeError
   \<and> sharkCondition (keypoints wristMissing) (1/2) = Inl TypeError
   \<and> discoCondition (keypoints wristMissing) (1/2) = Inl TypeError
   \<and> thrillerCondition (keypoints wristMissing) (1/2) = Inl TypeError
   \<and> classify (1/10) (1/2) wristMissing = Inl TypeError"
proof -
  have pr: "list_all (\<lambda>n. findPart (keypoints wristFaint) n \<noteq> None) armParts"
    by code_simp
  have f: "findPart (keypoints wristFaint) ''leftWrist'' = Some (kp ''leftWrist'' (3/10) 200 50)"
    by code_simp
  have lo: "\<not> score (kp ''leftWrist'' (3/10) 200 50) > 1/2"
    by code_simp
  have ab: "findPart (keypoints wristMissing) ''leftWrist'' = None"
    by code_simp
  have sc: "poseScore wristMissing \<ge> 1/10"
    by code_simp
  have mem: "''leftWrist'' \<in> set forearmParts" "''leftWrist'' \<in> set armParts"
    by (simp_all add: forearmParts_def armParts_def)
  have sub: "set forearmParts \<subseteq> set armParts"
    by (simp add: forearmParts_def armParts_def)
  from pr have a1: "\<forall>n\<in>set armParts. findPart (keypoints wristFaint) n \<noteq> None"
    by (simp only: list_all_iff)
  with sub have a2: "\<forall>n\<in>set forearmParts. findPart (keypoints wristFaint) n \<noteq> None"
    by blast
  from mem f lo have a3: "\<exists>n\<in>set armParts. \<exists>k. findPart (keypoints wristFaint) n = Some k
                             \<and> \<not> score k > 1/2"
    and a4: "\<exists>n\<in>set forearmParts. \<exists>k. findPart (keypoints wristFaint) n = Some k
                             \<and> \<not> score k > 1/2"
    by blast+
  from mem ab have b1: "\<exists>n\<in>set armParts. findPart (keypoints wristMissing) n = None"
    and b2: "\<exists>n\<in>set forearmParts. findPart (keypoints wristMissing) n = None"
    by blast+
  from required_part_unconfident_or_missing [of wristFaint "1/2" "1/10"]
       required_part_unconfident_or_missing [of wristMissing "1/2" "1/10"]
       a1 a2 a3 a4 b1 b2 sc pr f lo ab
  show ?thesis by blast
qed

text \<open>
  The claim as first stated fails for an absent part: a pose with raised arms whose
  keypoints hold no left shoulder makes the classification raise a TypeError instead
  of ending with no gesture.
\<close>

theorem missing_part_raises_counterexample:
  "findPart (keypoints shoulderMissing) ''leftShoulder'' = None
   \<and> poseScore shoulderMissing \<ge> 1/10
   \<and> classify (1/10) (1/2) shoulderMissing = Inl TypeError
   \<and> poseCallback allResolved (1/10) (1/2) '''' shoulderMissing
       = \<lparr>currentState = '''', trace = [], thrown = Some TypeError\<rparr>"
  by code_simp

subsection \<open>No exception when every part is present\<close>

lemma lt_no_throw: "\<not> isl a \<Longrightarrow> \<not> isl b \<Longrightarrow> \<not> isl (lt a b)"
  by (cases a; cases b) (simp_all add: lt_def)

lemma gt_no_throw: "\<not> isl a \<Longrightarrow> \<not> isl b \<Longrightarrow> \<not> isl (gt a b)"
  by (cases a; cases b) (simp_all add: gt_def)

lemma andAlso_no_throw: "list_all (\<lambda>c. \<not> isl c) cs \<Longrightarrow> \<not> isl (andAlso cs)"
  by (induction cs) (auto split: sum.splits)

lemma orElse_no_throw: "list_all (\<lambda>c. \<not> isl c) cs \<Longrightarrow> \<not> isl (orElse cs)"
  by (induction cs) (auto split: sum.splits)

lemma getX_no_throw: "findPart kps n \<noteq> None \<Longrightarrow> \<not> isl (getX kps n)"
  by (auto simp: getX_def)

lemma getY_no_throw: "findPart kps n \<noteq> None \<Longrightarrow> \<not> isl (getY kps n)"
  by (auto simp: getY_def)

lemma confidentParts_present:
  "\<forall>n\<in>set ps. findPart kps n \<noteq> None \<Longrightarrow>
   \<exists>ns. confidentParts kps m ps = Inr ns \<and> set ns \<subseteq> set ps"
  by (induction ps) (auto simp: getScore_def)

lemma mapE_getXvalue_present:
  "\<forall>n\<in>set ns. findPart kps n \<noteq> None \<Longrightarrow> \<not> isl (mapE (getXvalue kps) ns)"
  by (induction ns) (auto simp: getXvalue_def split: sum.splits)

lemma headX_no_throw:
  assumes "\<forall>n\<in>set headParts. findPart kps n \<noteq> None"
  shows "\<not> isl (headX kps m)"
proof -
  from confidentParts_present [OF assms, of m]
  obtain ns where ns: "confidentParts kps m headParts = Inr ns" "set ns \<subseteq> set headParts"
    by blast
  with assms have "\<forall>n\<in>set ns. findPart kps n \<noteq> None" by blast
  from mapE_getXvalue_present [OF this] ns(1) show ?thesis
    by (auto simp: headX_def split: sum.splits)
qed

lemma conditions_no_throw:
  assumes "\<forall>n\<in>set (headParts @ armParts). findPart kps n \<noteq> None"
  shows "\<not> isl (ymcaCondition kps m)" and "\<not> isl (sharkCondition kps m)"
    and "\<not> isl (discoCondition kps m)" and "\<not> isl (thrillerCondition kps m)"
proof -
  from assms have h: "\<not> isl (headX kps m)"
    by (intro headX_no_throw) simp
  from assms have a: "\<not> isl (isAllConfidentParts kps m armParts)"
    by (intro isAllConfidentParts_no_throw) simp
  from assms have f: "\<not> isl (isAllConfidentParts kps m forearmParts)"
    by (intro isAllConfidentParts_no_throw) (simp add: forearmParts_def armParts_def)
  from assms have p: "findPart kps ''leftWrist'' \<noteq> None" "findPart kps ''leftElbow'' \<noteq> None"
    "findPart kps ''leftShoulder'' \<noteq> None" "findPart kps ''rightWrist'' \<noteq> None"
    "findPart kps ''rightElbow'' \<noteq> None" "findPart kps ''rightShoulder'' \<noteq> None"
    by (simp_all add: armParts_def)
  note nt = lt_no_throw gt_no_throw getX_no_throw getY_no_throw
  have v: "\<not> isl (oneArmUpOneDown kps)"
    unfolding oneArmUpOneDown_def
    by (intro orElse_no_throw)
       (simp add: nt p andAlso_no_throw del: andAlso.simps orElse.simps)
  show "\<not> isl (ymcaCondition kps m)"
    unfolding ymcaCondition_def
    by (intro andAlso_no_throw)
       (simp add: nt p h a andAlso_no_throw orElse_no_throw del: andAlso.simps orElse.simps)
  show "\<not> isl (sharkCondition kps m)"
    unfolding sharkCondition_def
    by (intro andAlso_no_throw)
       (simp add: nt p h a v andAlso_no_throw orElse_no_throw del: andAlso.simps orElse.simps)
  show "\<not> isl (discoCondition kps m)"
    unfolding discoCondition_def
    by (intro andAlso_no_throw)
       (simp add: nt p h a v andAlso_no_throw orElse_no_throw del: andAlso.simps orElse.simps)
  show "\<not> isl (thrillerCondition kps m)"
    unfolding thrillerCondition_def
    by (intro andAlso_no_throw)
       (simp add: nt p h f andAlso_no_throw orElse_no_throw del: andAlso.simps orElse.simps)
qed

lemma firstMatch_no_throw:
  "\<forall>(g, c)\<in>set bs. \<not> isl (c kps m) \<Longrightarrow> \<not> isl (firstMatch bs kps m)"
  by (induction bs kps m rule: firstMatch.induct) (auto split: sum.splits)

lemma classify_no_throw:
  assumes "\<forall>n\<in>set (headParts @ armParts). findPart (keypoints p) n \<noteq> None"
  shows "\<not> isl (classify mp m p)"
proof -
  have "\<not> isl (firstMatch branches (keypoints p) m)"
    by (rule firstMatch_no_throw) (simp add: branches_def conditions_no_throw [OF assms])
  then show ?thesis by (simp add: classify_def)
qed

subsection \<open>No confident head part\<close>

lemma confidentParts_none:
  assumes "\<forall>n\<in>set ps. \<forall>k. findPart kps n = Some k \<longrightarrow> \<not> score k > m"
  shows "confidentParts kps m ps = Inr [] \<or> confidentParts kps m ps = Inl TypeError"
  using assms
  by (induction ps) (auto simp: getScore_def error_is_TypeError split: option.splits sum.splits)

lemma headX_no_reference:
  assumes "\<forall>n\<in>set headParts. \<forall>k. findPart kps n = Some k \<longrightarrow> \<not> score k > m"
  shows "headX kps m = Inr NaN \<or> headX kps m = Inl TypeError"
  using confidentParts_none [OF assms]
  by (auto simp: headX_def average_def)

text \<open>
  Claim C5, as amended. For every pose in which no head part (nose, eyes, ears) has a
  score above \<^verbatim>\<open>minPartConfidence\<close>, no branch is taken and the held state is not
  updated: the head average is NaN and every comparison with it is false. When the
  five head parts and the six arm parts are all present in the keypoints, the
  classification ends normally with no gesture; when one of them is absent, the
  classification may instead raise the TypeError of the failed lookup.
\<close>

theorem no_confident_head_part_no_gesture:
  assumes "\<forall>n\<in>set headParts. \<forall>k. findPart (keypoints p) n = Some k \<longrightarrow> \<not> score k > m"
  shows "(\<forall>g. classify mp m p \<noteq> Inr (Some g))
       \<and> currentState (poseCallback en mp m cur p) = cur
       \<and> trace (poseCallback en mp m cur p) = []
       \<and> ((\<forall>n\<in>set (headParts @ armParts). findPart (keypoints p) n \<noteq> None)
            \<longrightarrow> classify mp m p = Inr None)"
proof -
  from headX_no_reference [OF assms]
  have "\<not> (\<exists>h. headX (keypoints p) m = Inr h \<and> h \<noteq> NaN)" by auto
  with classify_Some_strict(5) [of mp m p]
  have n: "\<forall>g. classify mp m p \<noteq> Inr (Some g)" by blast
  have "classify mp m p = Inr None"
    if "\<forall>n\<in>set (headParts @ armParts). findPart (keypoints p) n \<noteq> None"
  proof -
    from classify_no_throw [OF that, of mp m]
    obtain r where "classify mp m p = Inr r" by (cases "classify mp m p") auto
    with n show ?thesis by (cases r) auto
  qed
  with n poseCallback_unmatched [OF n, of en cur] show ?thesis by blast
qed

theorem no_confident_head_part_no_gesture_witness:
  "list_all (\<lambda>n. case findPart (keypoints headHidden) n of
                    None \<Rightarrow> True | Some k \<Rightarrow> \<not> score k > 1/2) headParts
   \<and> list_all (\<lambda>n. findPart (keypoints headHidden) n \<noteq> None) (headParts @ armParts)
   \<and> classify (1/10) (1/2) headHidden = Inr None
   \<and> currentState (poseCallback allResolved (1/10) (1/2) ''Disco'' headHidden) = ''Disco''
   \<and> trace (poseCallback allResolved (1/10) (1/2) ''Disco'' headHidden) = []"
proof -
  have h: "list_all (\<lambda>n. case findPart (keypoints headHidden) n of
                    None \<Rightarrow> True | Some k \<Rightarrow> \<not> score k > 1/2) headParts"
    by code_simp
  have q: "list_all (\<lambda>n. findPart (keypoints headHidden) n \<noteq> None) (headParts @ armParts)"
    by code_simp
  from h have h': "\<forall>n\<in>set headParts. \<forall>k. findPart (keypoints headHidden) n = Some k
                     \<longrightarrow> \<not> score k > 1/2"
    by (auto simp: list_all_iff)
  from q have q': "\<forall>n\<in>set (headParts @ armParts). findPart (keypoints headHidden) n \<noteq> None"
    by (simp only: list_all_iff)
  from no_confident_head_part_no_gesture [OF h', of "1/10" allResolved "''Disco''"] q' h q
  show ?thesis by blast
qed

text \<open>
  The claim as first stated, that the classification yields no gesture, fails for a
  pose with raised arms whose keypoints hold no head part at all: the first branch
  reaches the head average, whose lookup of the nose raises a TypeError.
\<close>

theorem missing_head_raises_counterexample:
  "list_all (\<lambda>n. findPart (keypoints headMissing) n = None) headParts
   \<and> poseScore headMissing \<ge> 1/10
   \<and> classify (1/10) (1/2) headMissing = Inl TypeError"
  by code_simp

section \<open>Frames that match no gesture\<close>

text \<open>
  Claim C1, as amended. A frame in which a gesture \<open>g\<close> is matched, with a device
  selected, makes \<open>g\<close> the held state. A frame in which no gesture is matched does not
  call \<^verbatim>\<open>updateState\<close> at all: after \<open>g\<close> it leaves the held state at \<open>g\<close> (the code
  has no "none" state), so a later frame classified as \<open>g\<close> again is not a transition
  and has no effect. Over the three frames the only effects are those of the first
  one. Frames are processed one after the other, each call settled before the next.
\<close>

theorem unmatched_frame_keeps_held_state:
  assumes "classify mp m p1 = Inr (Some g)" and "classify mp m p2 = Inr None"
    and "classify mp m p3 = Inr (Some g)" and "getSelectedDevice (devices e1) = Inr d"
  shows "currentState (poseCallback e1 mp m cur p1) = g
       \<and> poseCallback e2 mp m g p2 = \<lparr>currentState = g, trace = [], thrown = None\<rparr>
       \<and> poseCallback e3 mp m g p3 = \<lparr>currentState = g, trace = [], thrown = None\<rparr>
       \<and> poseCallbacks mp m [(e1, p1), (e2, p2), (e3, p3)] cur
           = (g, trace (updateState e1 cur g))"
proof -
  have 1: "poseCallback e1 mp m cur p1 = updateState e1 cur g"
    using assms(1) by (simp add: poseCallback_def)
  have s: "currentState (updateState e1 cur g) = g"
    using assms(4) by (simp add: updateState_selected)
  have 2: "poseCallback e2 mp m g p2 = \<lparr>currentState = g, trace = [], thrown = None\<rparr>"
    using assms(2) by (simp add: poseCallback_def)
  have 3: "poseCallback e3 mp m g p3 = \<lparr>currentState = g, trace = [], thrown = None\<rparr>"
    using assms(3) by (simp add: poseCallback_def updateState_same)
  show ?thesis by (simp add: 1 s 2 3)
qed

theorem unmatched_frame_keeps_held_state_witness:
  "classify (1/10) (1/2) handsUp = Inr (Some ''YMCA'')
   \<and> classify (1/10) (1/2) atRest = Inr None
   \<and> getSelectedDevice (devices allResolved) = Inr ''kitchen-speaker''
   \<and> currentState (poseCallback allResolved (1/10) (1/2) '''' handsUp) = ''YMCA''
   \<and> poseCallback playUnavailable (1/10) (1/2) ''YMCA'' atRest
        = \<lparr>currentState = ''YMCA'', trace = [], thrown = None\<rparr>
   \<and> poseCallback allResolved (1/10) (1/2) ''YMCA'' handsUp
        = \<lparr>currentState = ''YMCA'', trace = [], thrown = None\<rparr>
   \<and> poseCallbacks (1/10) (1/2)
        [(allResolved, handsUp), (playUnavailable, atRest), (allResolved, handsUp)] ''''
        = (''YMCA'', trace (updateState allResolved '''' ''YMCA''))"
proof -
  have a: "classify (1/10) (1/2) handsUp = Inr (Some ''YMCA'')" by code_simp
  have b: "classify (1/10) (1/2) atRest = Inr None" by code_simp
  have d: "getSelectedDevice (devices allResolved) = Inr ''kitchen-speaker''" by code_simp
  from unmatched_frame_keeps_held_state
         [OF a b a d, of "''''" playUnavailable allResolved] a b d
  show ?thesis by blast
qed

text \<open>
  The claim as first stated fails: after a frame classified as YMCA, a frame with the
  arms hanging matches nothing and leaves the held state at YMCA, not at "none"; the
  next frame classified as YMCA has no effect, and the three frames together issue one
  play request and one seek request.
\<close>

theorem none_frame_counterexample:
  "classify (1/10) (1/2) handsUp = Inr (Some ''YMCA'')
   \<and> classify (1/10) (1/2) atRest = Inr None
   \<and> currentState (poseCallback allResolved (1/10) (1/2) ''YMCA'' atRest) = ''YMCA''
   \<and> currentState (poseCallback allResolved (1/10) (1/2) ''YMCA'' atRest) \<noteq> ''none''
   \<and> poseCallbacks (1/10) (1/2)
        [(allResolved, handsUp), (allResolved, atRest), (allResolved, handsUp)] ''''
        = (''YMCA'',
           [ConsoleLog ''Updating State:'' ''YMCA'',
            Play ''kitchen-speaker'' (Some ''spotify:track:7Cp69rNBwU0gaFT8zxExlE''),
            Seek 58000 None])"
  by code_simp

end
